theory Spec2Isabelle
  imports Complex_Main
begin

section \<open>Objects of the dependency graph\<close>

text \<open>
  The three node classes of \<^verbatim>\<open>PyMCObjects.py\<close>. \<^verbatim>\<open>Stochastic\<close> and \<^verbatim>\<open>Deterministic\<close> are
  \<^verbatim>\<open>Variable\<close>s; a \<^verbatim>\<open>Potential\<close> is a node but not a variable.
\<close>

datatype kind = Stochastic | Deterministic | Potential

text \<open>
  A Python object that can be bound as a parent or stored in a set: a node (by address),
  a container (by address) or any other constant.
\<close>

datatype 'c obj = Node nat | Cont nat | Const 'c

record 'c node =
  node_kind :: kind
  children :: "nat set"
  extended_parents :: "'c obj set"
  extended_children :: "nat set"

text \<open>
  Modelled from the spec: the container collaborator (\<^verbatim>\<open>Container.py\<close> is not part of the
  sources). It exposes the flattened set of contained variables and the typed subsets
  \<^verbatim>\<open>stochastics\<close> and \<^verbatim>\<open>deterministics\<close>, and nothing else; in particular it has no
  \<^verbatim>\<open>children\<close> attribute. The sets are kept as lists in their iteration order.
\<close>

record container =
  c_variables :: "nat list"
  c_stochastics :: "nat list"
  c_deterministics :: "nat list"

record 'c graph =
  nodes :: "nat \<Rightarrow> 'c node"
  conts :: "nat \<Rightarrow> container"

definition is_Deterministic :: "('c, 'z) graph_scheme \<Rightarrow> nat \<Rightarrow> bool" where
  "is_Deterministic g n = (node_kind (nodes g n) = Deterministic)"

section \<open>Closure functions\<close>

subsection \<open>\<^verbatim>\<open>extend_children\<close>\<close>

text \<open>
  One pass of the loop body of \<^verbatim>\<open>extend_children\<close>: every \<^verbatim>\<open>Deterministic\<close> member of
  \<^verbatim>\<open>children\<close> contributes its own \<^verbatim>\<open>children\<close> set to \<^verbatim>\<open>new_children\<close> and is
  collected in \<^verbatim>\<open>dtrm_children\<close>, which is subtracted afterwards.
\<close>

definition dtrm_children :: "('c, 'z) graph_scheme \<Rightarrow> nat set \<Rightarrow> nat set" where
  "dtrm_children g cs = {c \<in> cs. is_Deterministic g c}"

definition new_children :: "('c, 'z) graph_scheme \<Rightarrow> nat set \<Rightarrow> nat set" where
  "new_children g cs =
     (cs \<union> (\<Union>child \<in> dtrm_children g cs. children (nodes g child))) - dtrm_children g cs"

text \<open>
  The function recurses while a deterministic member was seen. On a cyclic graph the
  Python recursion never ends; not returning is the value \<open>None\<close>.
\<close>

partial_function (option) extend_children :: "('c, 'z) graph_scheme \<Rightarrow> nat set \<Rightarrow> nat set option" where
  "extend_children g cs =
     (let need_recursion = (dtrm_children g cs \<noteq> {}) in
      if need_recursion then extend_children g (new_children g cs)
      else Some (new_children g cs))"


text \<open>
  The graph reading of the function, used to state what it returns: the edges that lead
  out of a deterministic node, the whole child relation, and acyclicity of a finite graph.
\<close>

definition det_edges :: "('c, 'z) graph_scheme \<Rightarrow> (nat \<times> nat) set" where
  "det_edges g = {(d, c). is_Deterministic g d \<and> c \<in> children (nodes g d)}"

definition child_rel :: "('c, 'z) graph_scheme \<Rightarrow> (nat \<times> nat) set" where
  "child_rel g = {(p, c). c \<in> children (nodes g p)}"

definition dag :: "('c, 'z) graph_scheme \<Rightarrow> bool" where
  "dag g = (finite (child_rel g) \<and> acyclic (child_rel g))"

text \<open>
  The nearest descendants that are not deterministic: the nodes reached from the seed set
  along a path on which every node but the last is deterministic.
\<close>

definition density_descendants :: "('c, 'z) graph_scheme \<Rightarrow> nat set \<Rightarrow> nat set" where
  "density_descendants g cs =
     {y. \<not> is_Deterministic g y \<and> (\<exists>x \<in> cs. (x, y) \<in> (det_edges g)\<^sup>*)}"

text \<open>
  The replacement step in the words of the specification: every deterministic member is
  replaced by its own \<^verbatim>\<open>children\<close> set and removed.
\<close>

definition spec_replace :: "('c, 'z) graph_scheme \<Rightarrow> nat set \<Rightarrow> nat set" where
  "spec_replace g cs =
     (cs - dtrm_children g cs) \<union> (\<Union>d \<in> dtrm_children g cs. children (nodes g d))"

definition det_rank :: "('c, 'z) graph_scheme \<Rightarrow> nat \<Rightarrow> nat" where
  "det_rank g x = card {y. (x, y) \<in> (det_edges g)\<^sup>+}"

subsection \<open>\<^verbatim>\<open>extend_parents\<close>\<close>

definition is_Variable :: "('c, 'z) graph_scheme \<Rightarrow> 'c obj \<Rightarrow> bool" where
  "is_Variable g x = (case x of Node n \<Rightarrow> node_kind (nodes g n) \<noteq> Potential | _ \<Rightarrow> False)"

definition is_StochasticBase :: "('c, 'z) graph_scheme \<Rightarrow> 'c obj \<Rightarrow> bool" where
  "is_StochasticBase g x = (case x of Node n \<Rightarrow> node_kind (nodes g n) = Stochastic | _ \<Rightarrow> False)"

definition is_PotentialBase :: "('c, 'z) graph_scheme \<Rightarrow> 'c obj \<Rightarrow> bool" where
  "is_PotentialBase g x = (case x of Node n \<Rightarrow> node_kind (nodes g n) = Potential | _ \<Rightarrow> False)"

definition is_ContainerBase :: "'c obj \<Rightarrow> bool" where
  "is_ContainerBase x = (case x of Cont c \<Rightarrow> True | _ \<Rightarrow> False)"

text \<open>
  The body of the loop over \<^verbatim>\<open>parents\<close>: the parent is added first; a deterministic parent
  is removed again and replaced by its \<^verbatim>\<open>extended_parents\<close>; for a container the
  \<^verbatim>\<open>stochastics\<close> are added and the \<^verbatim>\<open>extended_parents\<close> of the \<^verbatim>\<open>deterministics\<close> united in.
  Every object is taken to be hashable.
\<close>

definition extend_parents_step :: "('c, 'z) graph_scheme \<Rightarrow> 'c obj \<Rightarrow> 'c obj set \<Rightarrow> 'c obj set" where
  "extend_parents_step g parent new_parents =
     (let new_parents = insert parent new_parents in
      case parent of
        Node n \<Rightarrow>
          if node_kind (nodes g n) = Deterministic
          then (new_parents - {parent}) \<union> extended_parents (nodes g n)
          else new_parents
      | Cont c \<Rightarrow>
          (let new_parents = fold (\<lambda>contained_parent acc. insert (Node contained_parent) acc)
                               (c_stochastics (conts g c)) new_parents
           in fold (\<lambda>contained_parent acc. acc \<union> extended_parents (nodes g contained_parent))
                (c_deterministics (conts g c)) new_parents)
      | Const v \<Rightarrow> new_parents)"

definition extend_parents :: "('c, 'z) graph_scheme \<Rightarrow> 'c obj list \<Rightarrow> 'c obj set" where
  "extend_parents g parents = fold (extend_parents_step g) parents {}"

section \<open>The parent binding map\<close>

datatype exn = KeyError | ValueError | AttributeError | TypeError | IndexError

text \<open>
  An operation either completes or raises; in both cases the mutations made so far stay.
\<close>

datatype 's outcome = Done 's | Raised exn 's

definition and_then :: "'s outcome \<Rightarrow> ('s \<Rightarrow> 's outcome) \<Rightarrow> 's outcome" where
  "and_then r f = (case r of Done s \<Rightarrow> f s | Raised e s \<Rightarrow> Raised e s)"

text \<open>
  Modelled from the spec: the dictionary container that \<^verbatim>\<open>ParentDict\<close> extends
  (\<^verbatim>\<open>DictContainer\<close> and \<^verbatim>\<open>file_items\<close> of \<^verbatim>\<open>Container.py\<close> are not part of the sources). It
  holds the bindings, the cached flattened set \<^verbatim>\<open>variables\<close>, which \<^verbatim>\<open>file_items\<close>
  recomputes from the bindings, and the two key lists \<^verbatim>\<open>val_keys\<close> (keys bound to a
  variable or container) and \<^verbatim>\<open>nonval_keys\<close> (the others).
\<close>

record 'c parent_dict =
  pd_items :: "(string \<times> 'c obj) list"
  owner :: nat
  has_logp :: bool
  variables :: "nat list"
  val_keys :: "string list"
  nonval_keys :: "string list"

record 'c pstate = "'c graph" +
  pd :: "'c parent_dict"

definition itervalues :: "'c pstate \<Rightarrow> 'c obj list" where
  "itervalues st = map snd (pd_items (pd st))"

definition flat_variables :: "('c, 'z) graph_scheme \<Rightarrow> (string \<times> 'c obj) list \<Rightarrow> nat list" where
  "flat_variables g kvs =
     remdups (concat (map (\<lambda>(k, v). case v of
                                      Node n \<Rightarrow> if is_Variable g v then [n] else []
                                    | Cont c \<Rightarrow> c_variables (conts g c)
                                    | Const x \<Rightarrow> []) kvs))"

definition file_items :: "'c pstate \<Rightarrow> 'c pstate" where
  "file_items st = st\<lparr>pd := (pd st)\<lparr>variables := flat_variables st (pd_items (pd st))\<rparr>\<rparr>"

definition set_extended_parents :: "nat \<Rightarrow> 'c obj set \<Rightarrow> 'c pstate \<Rightarrow> 'c pstate" where
  "set_extended_parents n ps st =
     st\<lparr>nodes := (nodes st)(n := (nodes st n)\<lparr>extended_parents := ps\<rparr>)\<rparr>"

text \<open>\<^verbatim>\<open>ParentDict.__init__\<close>\<close>

definition ParentDict_init :: "'c graph \<Rightarrow> (string \<times> 'c obj) list \<Rightarrow> nat \<Rightarrow> 'c pstate" where
  "ParentDict_init g regular_dict own =
     (let st = \<lparr>nodes = nodes g, conts = conts g,
                pd = \<lparr>pd_items = regular_dict, owner = own, has_logp = False,
                       variables = flat_variables g regular_dict,
                       val_keys = map fst (filter (\<lambda>(k, v). is_Variable g v \<or> is_ContainerBase v) regular_dict),
                       nonval_keys = map fst (filter (\<lambda>(k, v). \<not> (is_Variable g v \<or> is_ContainerBase v)) regular_dict)\<rparr>\<rparr>;
          st = set_extended_parents own (extend_parents st (map Node (variables (pd st)))) st
      in st\<lparr>pd := (pd st)\<lparr>has_logp := (is_StochasticBase st (Node own) \<or> is_PotentialBase st (Node own))\<rparr>\<rparr>)"

text \<open>Mutations of a variable's \<^verbatim>\<open>children\<close> set: \<^verbatim>\<open>add\<close>, \<^verbatim>\<open>discard\<close> and \<^verbatim>\<open>remove\<close>.\<close>

definition children_add :: "nat \<Rightarrow> nat \<Rightarrow> 'c pstate \<Rightarrow> 'c pstate" where
  "children_add v c st =
     st\<lparr>nodes := (nodes st)(v := (nodes st v)\<lparr>children := insert c (children (nodes st v))\<rparr>)\<rparr>"

definition children_discard :: "nat \<Rightarrow> nat \<Rightarrow> 'c pstate \<Rightarrow> 'c pstate" where
  "children_discard v c st =
     st\<lparr>nodes := (nodes st)(v := (nodes st v)\<lparr>children := children (nodes st v) - {c}\<rparr>)\<rparr>"

definition children_remove :: "nat \<Rightarrow> nat \<Rightarrow> 'c pstate \<Rightarrow> 'c pstate outcome" where
  "children_remove v c st =
     (if c \<in> children (nodes st v) then Done (children_discard v c st) else Raised KeyError st)"

text \<open>\<^verbatim>\<open>detach_extended_parents\<close> and \<^verbatim>\<open>attach_extended_parents\<close>\<close>

definition detach_extended_parents :: "'c pstate \<Rightarrow> 'c pstate" where
  "detach_extended_parents st =
     st\<lparr>nodes := (\<lambda>e_parent.
           if Node e_parent \<in> extended_parents (nodes st (owner (pd st)))
              \<and> is_StochasticBase st (Node e_parent)
           then (nodes st e_parent)\<lparr>extended_children :=
                   extended_children (nodes st e_parent) - {owner (pd st)}\<rparr>
           else nodes st e_parent)\<rparr>"

definition attach_extended_parents :: "'c pstate \<Rightarrow> 'c pstate" where
  "attach_extended_parents st =
     st\<lparr>nodes := (\<lambda>e_parent.
           if Node e_parent \<in> extended_parents (nodes st (owner (pd st)))
              \<and> is_StochasticBase st (Node e_parent)
           then (nodes st e_parent)\<lparr>extended_children :=
                   insert (owner (pd st)) (extended_children (nodes st e_parent))\<rparr>
           else nodes st e_parent)\<rparr>"

text \<open>
  \<^verbatim>\<open>detach_parents\<close>. For a container the loop body reads the attribute \<^verbatim>\<open>chidren\<close> of the
  contained variable, which no variable has: the first contained variable raises.
\<close>

fun detach_parents_loop :: "'c pstate \<Rightarrow> 'c obj list \<Rightarrow> 'c pstate outcome" where
  "detach_parents_loop st [] = Done st"
| "detach_parents_loop st (parent # rest) =
     (case parent of
        Node n \<Rightarrow>
          if is_Variable st parent
          then detach_parents_loop (children_discard n (owner (pd st)) st) rest
          else detach_parents_loop st rest
      | Cont c \<Rightarrow>
          (case c_variables (conts st c) of
             [] \<Rightarrow> detach_parents_loop st rest
           | variable # others \<Rightarrow> Raised AttributeError st)
      | Const v \<Rightarrow> detach_parents_loop st rest)"

definition detach_parents :: "'c pstate \<Rightarrow> 'c pstate outcome" where
  "detach_parents st =
     and_then (detach_parents_loop st (itervalues st))
       (\<lambda>st. Done (if has_logp (pd st) then detach_extended_parents st else st))"

text \<open>\<^verbatim>\<open>attach_parents\<close>\<close>

fun attach_parents_loop :: "'c pstate \<Rightarrow> 'c obj list \<Rightarrow> 'c pstate" where
  "attach_parents_loop st [] = st"
| "attach_parents_loop st (parent # rest) =
     (case parent of
        Node n \<Rightarrow>
          if is_Variable st parent
          then attach_parents_loop (children_add n (owner (pd st)) st) rest
          else attach_parents_loop st rest
      | Cont c \<Rightarrow>
          attach_parents_loop
            (fold (\<lambda>variable acc. children_add variable (owner (pd st)) acc)
               (c_variables (conts st c)) st) rest
      | Const v \<Rightarrow> attach_parents_loop st rest)"

definition attach_parents :: "'c pstate \<Rightarrow> 'c pstate" where
  "attach_parents st =
     (let st = attach_parents_loop st (itervalues st)
      in if has_logp (pd st) then attach_extended_parents st else st)"


text \<open>
  \<^verbatim>\<open>ParentDict.__setitem__\<close>. \<^verbatim>\<open>list_remove\<close> is Python's \<^verbatim>\<open>list.remove\<close> (\<open>None\<close> where it
  raises \<^verbatim>\<open>ValueError\<close>); \<^verbatim>\<open>count_is\<close> is the sum over \<^verbatim>\<open>parent is x\<close> for the bound values.
\<close>

definition list_remove :: "'a \<Rightarrow> 'a list \<Rightarrow> 'a list option" where
  "list_remove x xs = (if x \<in> set xs then Some (remove1 x xs) else None)"

definition count_is :: "'c obj \<Rightarrow> 'c obj list \<Rightarrow> nat" where
  "count_is x ps = length (filter (\<lambda>parent. parent = x) ps)"

fun dict_setitem :: "string \<Rightarrow> 'v \<Rightarrow> (string \<times> 'v) list \<Rightarrow> (string \<times> 'v) list" where
  "dict_setitem k v [] = [(k, v)]"
| "dict_setitem k v ((k', v') # kvs) =
     (if k' = k then (k, v) # kvs else (k', v') # dict_setitem k v kvs)"

text \<open>The loop over the variables of an old parent that is a container.\<close>

fun forget_contained :: "'c pstate \<Rightarrow> nat list \<Rightarrow> 'c pstate outcome" where
  "forget_contained st [] = Done st"
| "forget_contained st (variable # rest) =
     and_then
       (if count_is (Node variable) (itervalues st) = 1
        then children_remove variable (owner (pd st)) st
        else Done st)
       (\<lambda>st. forget_contained st rest)"

text \<open>The first block: possibly remove the owner from the old parent's children set.\<close>

definition setitem_old :: "'c pstate \<Rightarrow> string \<Rightarrow> 'c obj \<Rightarrow> 'c pstate outcome" where
  "setitem_old st key old_parent =
     (if is_Variable st old_parent \<or> is_ContainerBase old_parent then
        (let st = (if has_logp (pd st) then detach_extended_parents st else st) in
         case list_remove key (val_keys (pd st)) of
           None \<Rightarrow> Raised ValueError st
         | Some ks \<Rightarrow>
             (let st = st\<lparr>pd := (pd st)\<lparr>val_keys := ks,
                                          nonval_keys := nonval_keys (pd st) @ [key]\<rparr>\<rparr> in
              case old_parent of
                Node n \<Rightarrow>
                  if count_is old_parent (itervalues st) = 1
                  then children_remove n (owner (pd st)) st
                  else Done st
              | Cont c \<Rightarrow> forget_contained st (c_variables (conts st c))
              | Const v \<Rightarrow> Done st))
      else Done st)"

text \<open>
  The second block: register the owner with the new parent. For a container the loop body
  reads \<^verbatim>\<open>new_parent.children\<close>, an attribute of the container itself, which a container
  does not have: the first contained variable raises.
\<close>

definition setitem_new :: "'c pstate \<Rightarrow> string \<Rightarrow> 'c obj \<Rightarrow> 'c pstate outcome" where
  "setitem_new st key new_parent =
     (if is_Variable st new_parent \<or> is_ContainerBase new_parent then
        (let st = st\<lparr>pd := (pd st)\<lparr>val_keys := val_keys (pd st) @ [key]\<rparr>\<rparr> in
         case list_remove key (nonval_keys (pd st)) of
           None \<Rightarrow> Raised ValueError st
         | Some ks \<Rightarrow>
             (let st = st\<lparr>pd := (pd st)\<lparr>nonval_keys := ks\<rparr>\<rparr> in
              case new_parent of
                Node n \<Rightarrow> Done (children_add n (owner (pd st)) st)
              | Cont c \<Rightarrow>
                  (case c_variables (conts st c) of
                     [] \<Rightarrow> Done st
                   | variable # others \<Rightarrow> Raised AttributeError st)
              | Const v \<Rightarrow> Done st))
      else Done st)"

text \<open>
  The tail: \<^verbatim>\<open>extended_parents\<close> is recomputed from the cached \<^verbatim>\<open>variables\<close>, the owner is
  attached to its extended parents, and only then the binding is stored and \<^verbatim>\<open>file_items\<close>
  refreshes the cache. The final \<^verbatim>\<open>gen_lazy_function\<close> call rebuilds the evaluator, an
  external collaborator that touches none of the registration sets.
\<close>

definition setitem_finish :: "'c pstate \<Rightarrow> string \<Rightarrow> 'c obj \<Rightarrow> 'c pstate" where
  "setitem_finish st key new_parent =
     (let st = set_extended_parents (owner (pd st))
                 (extend_parents st (map Node (variables (pd st)))) st;
          st = (if has_logp (pd st) then attach_extended_parents st else st);
          st = st\<lparr>pd := (pd st)\<lparr>pd_items := dict_setitem key new_parent (pd_items (pd st))\<rparr>\<rparr>
      in file_items st)"

definition setitem :: "'c pstate \<Rightarrow> string \<Rightarrow> 'c obj \<Rightarrow> 'c pstate outcome" where
  "setitem st key new_parent =
     (case map_of (pd_items (pd st)) key of
        None \<Rightarrow> Raised KeyError st
      | Some old_parent \<Rightarrow>
          and_then (setitem_old st key old_parent) (\<lambda>st.
          and_then (setitem_new st key new_parent) (\<lambda>st.
          Done (setitem_finish st key new_parent))))"

section \<open>Markov blanket of a stochastic\<close>

definition coparents :: "('c, 'z) graph_scheme \<Rightarrow> nat \<Rightarrow> 'c obj set" where
  "coparents g self =
     insert (Node self)
       (\<Union>child \<in> extended_children (nodes g self). extended_parents (nodes g child))"

definition moral_neighbors :: "('c, 'z) graph_scheme \<Rightarrow> nat \<Rightarrow> 'c obj set" where
  "moral_neighbors g self =
     {neighbor \<in> coparents g self \<union> extended_parents (nodes g self)
                   \<union> Node ` extended_children (nodes g self).
        \<not> is_PotentialBase g neighbor}"

definition markov_blanket :: "('c, 'z) graph_scheme \<Rightarrow> nat \<Rightarrow> 'c obj set" where
  "markov_blanket g self = moral_neighbors g self \<union> {Node self}"

text \<open>
  Consistent registration: for a stochastic \<open>p\<close>, the members of its \<^verbatim>\<open>extended_children\<close>
  are exactly the density-bearing nodes that list \<open>p\<close> among their \<^verbatim>\<open>extended_parents\<close>
  (what \<^verbatim>\<open>attach_extended_parents\<close> registers).
\<close>

definition consistent :: "('c, 'z) graph_scheme \<Rightarrow> bool" where
  "consistent g =
     (\<forall>p c. node_kind (nodes g p) = Stochastic \<longrightarrow>
        (c \<in> extended_children (nodes g p)
           \<longleftrightarrow> node_kind (nodes g c) \<noteq> Deterministic
               \<and> Node p \<in> extended_parents (nodes g c)))"

section \<open>Log-probability\<close>

text \<open>
  A Python float: not-a-number, the two infinities, or a finite value, given by the real
  number it denotes. Comparisons with NaN are false.
\<close>

datatype pyfloat = NaN | PosInf | NegInf | Finite real

fun float_le :: "pyfloat \<Rightarrow> pyfloat \<Rightarrow> bool" where
  "float_le NaN y = False"
| "float_le x NaN = False"
| "float_le NegInf y = True"
| "float_le x PosInf = True"
| "float_le (Finite x) (Finite y) = (x \<le> y)"
| "float_le x y = False"

definition isnan :: "pyfloat \<Rightarrow> bool" where
  "isnan x = (x = NaN)"

definition is_finite :: "pyfloat \<Rightarrow> bool" where
  "is_finite x = (case x of Finite r \<Rightarrow> True | _ \<Rightarrow> False)"

text \<open>
  \<^verbatim>\<open>d_neg_inf = float(-1.79E308)\<close>: the double nearest to the decimal literal, which is
  \<^verbatim>\<open>-0x1.fdcf158adbb99p+1023\<close>, that is \<open>- 8968653411040153 * 2 ^ 971\<close> (some \<open>3.6e291\<close>
  above the decimal). A finite float is the real number it denotes, so the comparison
  with the sentinel is exact.
\<close>

definition d_neg_inf :: pyfloat where
  "d_neg_inf = Finite (- (8968653411040153 * 2 ^ 971))"

text \<open>
  The three errors of \<^verbatim>\<open>get_logp\<close>. Each message holds the node's name; the
  zero-probability message also holds the stochastic's value (a potential has none) and
  the parents' values.
\<close>

datatype ('v, 'p) logp_exn =
    LogpTypeError string
  | LogpValueError string
  | ZeroProbability string "'v option" 'p

text \<open>
  \<^verbatim>\<open>Stochastic.get_logp\<close> and \<^verbatim>\<open>Potential.get_logp\<close>. The argument \<open>raw\<close> is what the
  evaluator's \<^verbatim>\<open>get()\<close> returned; \<open>to_float\<close> is Python's \<^verbatim>\<open>float()\<close>, \<open>None\<close> where it
  raises.
\<close>

definition Stochastic_get_logp ::
  "('r \<Rightarrow> pyfloat option) \<Rightarrow> string \<Rightarrow> 'v \<Rightarrow> 'p \<Rightarrow> 'r \<Rightarrow> ('v, 'p) logp_exn + pyfloat" where
  "Stochastic_get_logp to_float name val parents_value raw =
     (case to_float raw of
        None \<Rightarrow> Inl (LogpTypeError name)
      | Some logp \<Rightarrow>
          if isnan logp then Inl (LogpValueError name)
          else if float_le logp d_neg_inf
          then Inl (ZeroProbability name (Some val) parents_value)
          else Inr logp)"

definition Potential_get_logp ::
  "('r \<Rightarrow> pyfloat option) \<Rightarrow> string \<Rightarrow> 'p \<Rightarrow> 'r \<Rightarrow> ('v, 'p) logp_exn + pyfloat" where
  "Potential_get_logp to_float name parents_value raw =
     (case to_float raw of
        None \<Rightarrow> Inl (LogpTypeError name)
      | Some logp \<Rightarrow>
          if isnan logp then Inl (LogpValueError name)
          else if float_le logp d_neg_inf
          then Inl (ZeroProbability name None parents_value)
          else Inr logp)"


section \<open>The value of a stochastic\<close>

text \<open>
  Values are Python objects with identity: the stochastic holds addresses into a store.
  A stored object is a one-dimensional \<^verbatim>\<open>ndarray\<close> (its \<^verbatim>\<open>flags['W']\<close> bit and its
  entries) or any other object.
\<close>

type_synonym addr = nat

datatype 'e pyval = NDArray bool "'e list" | Scalar 'e

text \<open>
  The node's \<^verbatim>\<open>dtype\<close> is an object of Python or numpy, outside the repository; it is
  given by what \<^verbatim>\<open>set_value\<close> does with it: the call \<^verbatim>\<open>self.dtype(value)\<close>, the conversion
  \<^verbatim>\<open>asarray(value, dtype=self.dtype)\<close>, the test \<^verbatim>\<open>self.dtype is value.dtype\<close>, its truth
  value and the test \<^verbatim>\<open>self.dtype is object\<close>.
\<close>

record 'e dtype =
  dt_call :: "'e pyval \<Rightarrow> exn + 'e pyval"
  dt_asarray :: "'e pyval \<Rightarrow> exn + 'e pyval"
  dt_is_dtype_of :: "'e pyval \<Rightarrow> bool"
  dt_truthy :: bool
  dt_is_object :: bool

text \<open>
  The fields of a \<^verbatim>\<open>Stochastic\<close> that \<^verbatim>\<open>set_value\<close> and \<^verbatim>\<open>revert\<close> read and write, with the
  object store. \<open>missing\<close> is \<^verbatim>\<open>_missing\<close> (\<open>None\<close> is Python's \<^verbatim>\<open>None\<close>), \<open>s_value\<close> is
  \<^verbatim>\<open>_value\<close>, and \<open>last_value = None\<close> says that the attribute \<^verbatim>\<open>last_value\<close> does not
  exist: \<^verbatim>\<open>__init__\<close> and \<^verbatim>\<open>gen_lazy_function\<close> never assign it.
\<close>

record 'e stochastic =
  heap :: "addr \<Rightarrow> 'e pyval"
  next_addr :: addr
  isdata :: bool
  missing :: "nat list option"
  s_dtype :: "'e dtype option"
  s_value :: addr
  last_value :: "addr option"

definition alloc :: "'e pyval \<Rightarrow> 'e stochastic \<Rightarrow> addr \<times> 'e stochastic" where
  "alloc v s = (next_addr s, s\<lparr>heap := (heap s)(next_addr s := v), next_addr := Suc (next_addr s)\<rparr>)"

text \<open>Assignment \<^verbatim>\<open>a[idx] = vals\<close> for a list of indices.\<close>

definition assign_indices :: "'e list \<Rightarrow> nat list \<Rightarrow> 'e list \<Rightarrow> 'e list" where
  "assign_indices a idx vals = fold (\<lambda>(i, v) acc. acc[i := v]) (zip idx vals) a"

text \<open>
  The second half of \<^verbatim>\<open>set_value\<close>, from the line that saves \<^verbatim>\<open>last_value\<close> on: the save,
  then the coercion of the new value and the assignment of \<^verbatim>\<open>_value\<close>.
\<close>

definition save_and_assign :: "'e stochastic \<Rightarrow> addr \<Rightarrow> 'e stochastic outcome" where
  "save_and_assign s0 new =
     (let s = s0\<lparr>last_value := Some (s_value s0)\<rparr> in
      case heap s new of
        NDArray w xs \<Rightarrow>
          (let s = s\<lparr>heap := (heap s)(new := NDArray False xs)\<rparr> in
           case s_dtype s of
             Some d \<Rightarrow>
               if \<not> dt_is_dtype_of d (NDArray False xs) then
                 (case dt_asarray d (NDArray False xs) of
                    Inl e \<Rightarrow> Raised e s
                  | Inr a \<Rightarrow> (let (r, s) = alloc a s in Done (s\<lparr>s_value := r\<rparr>)))
               else Done (s\<lparr>s_value := new\<rparr>)
           | None \<Rightarrow> Done (s\<lparr>s_value := new\<rparr>))
      | Scalar x \<Rightarrow>
          (case s_dtype s of
             Some d \<Rightarrow>
               if dt_truthy d \<and> \<not> dt_is_object d then
                 (case dt_call d (Scalar x) of
                    Inr v \<Rightarrow> (let (r, s) = alloc v s in Done (s\<lparr>s_value := r\<rparr>))
                  | Inl e \<Rightarrow>
                      if e = TypeError then
                        (case dt_asarray d (Scalar x) of
                           Inl e' \<Rightarrow> Raised e' s
                         | Inr a \<Rightarrow> (let (r, s) = alloc a s in Done (s\<lparr>s_value := r\<rparr>)))
                      else Raised e s)
               else Done (s\<lparr>s_value := new\<rparr>)
           | None \<Rightarrow> Done (s\<lparr>s_value := new\<rparr>)))"

text \<open>
  The branch for observed data with missing entries: the new value is indexed by
  \<^verbatim>\<open>_missing\<close>, the stored value is copied, and the copy gets the missing entries.
\<close>

definition merge_missing :: "'e stochastic \<Rightarrow> nat list \<Rightarrow> addr \<Rightarrow> 'e stochastic outcome" where
  "merge_missing s m new =
     (case heap s new of
        NDArray w xs \<Rightarrow>
          if list_all (\<lambda>i. i < length xs) m then
            (let missing_values = map (\<lambda>i. xs ! i) m in
             case heap s (s_value s) of
               NDArray w' ys \<Rightarrow>
                 (let (cp, s) = alloc (NDArray True ys) s in
                  if list_all (\<lambda>i. i < length ys) m
                  then save_and_assign
                         (s\<lparr>heap := (heap s)(cp := NDArray True (assign_indices ys m missing_values))\<rparr>)
                         cp
                  else Raised IndexError s)
             | Scalar y \<Rightarrow> (let (cp, s) = alloc (Scalar y) s in Raised TypeError s))
          else Raised IndexError s
      | Scalar x \<Rightarrow> Raised TypeError s)"

text \<open>\<^verbatim>\<open>Stochastic.set_value\<close>\<close>

definition set_value :: "'e stochastic \<Rightarrow> addr \<Rightarrow> 'e stochastic outcome" where
  "set_value s new =
     (if isdata s then
        (case missing s of
           Some (i # more_indices) \<Rightarrow> merge_missing s (i # more_indices) new
         | Some [] \<Rightarrow> Raised AttributeError s
         | None \<Rightarrow> Raised AttributeError s)
      else save_and_assign s new)"

text \<open>\<^verbatim>\<open>Stochastic.revert\<close>, and reading the attribute \<^verbatim>\<open>last_value\<close>.\<close>

definition revert :: "'e stochastic \<Rightarrow> 'e stochastic outcome" where
  "revert s =
     (case last_value s of
        None \<Rightarrow> Raised AttributeError s
      | Some r \<Rightarrow> Done (s\<lparr>s_value := r\<rparr>))"

definition get_last_value :: "'e stochastic \<Rightarrow> exn + addr" where
  "get_last_value s = (case last_value s of None \<Rightarrow> Inl AttributeError | Some r \<Rightarrow> Inr r)"

definition outcome_state :: "'s outcome \<Rightarrow> 's" where
  "outcome_state r = (case r of Done s \<Rightarrow> s | Raised e s \<Rightarrow> s)"

definition entries :: "'e pyval \<Rightarrow> 'e list + 'e" where
  "entries v = (case v of NDArray w xs \<Rightarrow> Inl xs | Scalar x \<Rightarrow> Inr x)"

section \<open>Constructing a stochastic\<close>

text \<open>
  What the constructor needs from outside the repository: the node's random method
  \<^verbatim>\<open>_random\<close> (\<open>None\<close> when none was given; otherwise the result of its \<open>n\<close>-th call, an
  object or an exception), numpy's \<^verbatim>\<open>asarray\<close> without a \<^verbatim>\<open>dtype\<close>, what building and
  forcing the evaluator raises, if anything, and what the final check of the initial
  log-probability raises, if anything (reading \<^verbatim>\<open>logp\<close> may raise, and a result that is
  not a float raises \<^verbatim>\<open>ValueError\<close>).
\<close>

record 'a externals =
  x_random :: "(nat \<Rightarrow> exn + 'a option pyval) option"
  x_asarray :: "'a option pyval \<Rightarrow> exn + 'a option pyval"
  x_force_compute :: "exn option"
  x_logp_check :: "exn option"

text \<open>
  Python's \<^verbatim>\<open>None\<close> is an object of the store; an entry of an array that is \<^verbatim>\<open>None\<close> is the
  entry \<open>None\<close>. A \<open>Scalar\<close> is an object that is neither an array nor iterable.
\<close>

definition is_None :: "'a option pyval \<Rightarrow> bool" where
  "is_None v = (v = Scalar None)"

text \<open>An object returned by a conversion or a draw is a new object of the store.\<close>

definition store_result ::
  "exn + 'e pyval \<Rightarrow> 'e stochastic \<Rightarrow> 'e stochastic outcome" where
  "store_result r s =
     (case r of
        Inl e \<Rightarrow> Raised e s
      | Inr p \<Rightarrow> (let (a, s) = alloc p s in Done (s\<lparr>s_value := a\<rparr>)))"

text \<open>
  \<^verbatim>\<open>Stochastic.__init__\<close>, the assignment of \<^verbatim>\<open>_value\<close> from the argument \<^verbatim>\<open>value\<close>: the call
  \<^verbatim>\<open>dtype(value)\<close>, and \<^verbatim>\<open>asarray(value, dtype=dtype)\<close> when the call raises \<^verbatim>\<open>TypeError\<close> or
  \<^verbatim>\<open>ValueError\<close>. Calling the \<^verbatim>\<open>dtype\<close> \<^verbatim>\<open>None\<close> raises \<^verbatim>\<open>TypeError\<close>.
\<close>

definition initial_value :: "'a externals \<Rightarrow> 'a option stochastic \<Rightarrow> 'a option stochastic outcome" where
  "initial_value ext s =
     (if \<not> is_None (heap s (s_value s)) then
        (case s_dtype s of
           None \<Rightarrow> store_result (x_asarray ext (heap s (s_value s))) s
         | Some d \<Rightarrow>
             (case dt_call d (heap s (s_value s)) of
                Inr p \<Rightarrow> store_result (Inr p) s
              | Inl e \<Rightarrow>
                  if e = TypeError \<or> e = ValueError
                  then store_result (dt_asarray d (heap s (s_value s))) s
                  else Raised e s))
      else Done s)"

text \<open>
  \<^verbatim>\<open>gen_lazy_function\<close>, first block: a value that is \<^verbatim>\<open>None\<close> is drawn from the random
  method, or the construction fails.
\<close>

definition draw_initial :: "'a externals \<Rightarrow> 'a option stochastic \<Rightarrow> 'a option stochastic outcome" where
  "draw_initial ext s =
     (if is_None (heap s (s_value s)) then
        (case x_random ext of
           Some r \<Rightarrow> store_result (r 0) s
         | None \<Rightarrow> Raised ValueError s)
      else Done s)"

text \<open>
  \<^verbatim>\<open>gen_lazy_function\<close>, second block, run when \<^verbatim>\<open>_missing\<close> is not yet an attribute: the
  indices of the entries that are \<^verbatim>\<open>None\<close> become \<^verbatim>\<open>_missing\<close>; if there are any they are
  filled in place from a draw (call number \<open>k\<close> of the random method). A \<^verbatim>\<open>TypeError\<close>
  anywhere in the block sets \<^verbatim>\<open>_missing\<close> to \<^verbatim>\<open>None\<close>: a value that cannot be enumerated, a
  draw that raises it or that cannot be indexed. Assigning into an array whose \<^verbatim>\<open>W\<close> flag
  is off raises numpy's read-only error, taken to be a \<^verbatim>\<open>ValueError\<close>.
\<close>

definition find_missing :: "'a option list \<Rightarrow> nat list" where
  "find_missing xs = filter (\<lambda>i. xs ! i = None) [0..<length xs]"

definition check_missing ::
  "'a externals \<Rightarrow> nat \<Rightarrow> 'a option stochastic \<Rightarrow> 'a option stochastic outcome" where
  "check_missing ext k s =
     (case heap s (s_value s) of
        Scalar y \<Rightarrow> Done (s\<lparr>missing := None\<rparr>)
      | NDArray w xs \<Rightarrow>
          (let s = s\<lparr>missing := Some (find_missing xs)\<rparr> in
           if find_missing xs \<noteq> [] then
             (case x_random ext of
                Some r \<Rightarrow>
                  (case r k of
                     Inl e \<Rightarrow> if e = TypeError then Done (s\<lparr>missing := None\<rparr>) else Raised e s
                   | Inr (Scalar z) \<Rightarrow> Done (s\<lparr>missing := None\<rparr>)
                   | Inr (NDArray w' ys) \<Rightarrow>
                       if list_all (\<lambda>i. i < length ys) (find_missing xs) then
                         (if w then
                            Done (s\<lparr>heap := (heap s)(s_value s :=
                                    NDArray w (assign_indices xs (find_missing xs)
                                                 (map (\<lambda>i. ys ! i) (find_missing xs))))\<rparr>)
                          else Raised ValueError s)
                       else Raised IndexError s)
              | None \<Rightarrow> Raised ValueError s)
           else Done s))"

text \<open>
  \<^verbatim>\<open>gen_lazy_function\<close>. The flag says whether \<^verbatim>\<open>_missing\<close> is already an attribute (it is
  not when the constructor calls). The evaluator is built and forced at the end.
\<close>

definition gen_lazy_function ::
  "'a externals \<Rightarrow> bool \<Rightarrow> 'a option stochastic \<Rightarrow> 'a option stochastic outcome" where
  "gen_lazy_function ext has_missing s0 =
     and_then (draw_initial ext s0) (\<lambda>s.
     and_then (if has_missing then Done s
               else check_missing ext (if is_None (heap s0 (s_value s0)) then 1 else 0) s) (\<lambda>s.
     case x_force_compute ext of
       Some e \<Rightarrow> Raised e s
     | None \<Rightarrow> Done s))"

text \<open>
  \<^verbatim>\<open>Stochastic.__init__\<close>, after the base constructor: an array value whose \<^verbatim>\<open>dtype\<close> is not
  the node's is converted and viewed, and an array value gets its \<^verbatim>\<open>W\<close> flag turned off.
  The \<^verbatim>\<open>dtype\<close> \<^verbatim>\<open>None\<close> is never an array's \<^verbatim>\<open>dtype\<close>.
\<close>

definition coerce_initial :: "'a externals \<Rightarrow> 'a option stochastic \<Rightarrow> 'a option stochastic outcome" where
  "coerce_initial ext s =
     and_then
       (case heap s (s_value s) of
          NDArray w xs \<Rightarrow>
            (case s_dtype s of
               None \<Rightarrow> store_result (x_asarray ext (NDArray w xs)) s
             | Some d \<Rightarrow>
                 if \<not> dt_is_dtype_of d (NDArray w xs)
                 then store_result (dt_asarray d (NDArray w xs)) s
                 else Done s)
        | Scalar y \<Rightarrow> Done s)
       (\<lambda>s. case heap s (s_value s) of
               NDArray w xs \<Rightarrow> Done (s\<lparr>heap := (heap s)(s_value s := NDArray False xs)\<rparr>)
             | Scalar y \<Rightarrow> Done s)"

text \<open>
  \<^verbatim>\<open>Stochastic.__init__\<close>. The arguments are the store, the address of the object given as
  \<^verbatim>\<open>value\<close> (the object \<^verbatim>\<open>None\<close> when no value is given), the \<^verbatim>\<open>dtype\<close> and the \<^verbatim>\<open>isdata\<close>
  flag. The new object has no attribute \<^verbatim>\<open>last_value\<close>.

  Modelled from the spec: the base constructor \<^verbatim>\<open>Variable.__init__\<close> (\<^verbatim>\<open>Node.py\<close> is not part
  of the sources), which stores the \<^verbatim>\<open>dtype\<close>, binds the parents and calls
  \<^verbatim>\<open>gen_lazy_function\<close>.
\<close>

definition Stochastic_init ::
  "'a externals \<Rightarrow> (addr \<Rightarrow> 'a option pyval) \<Rightarrow> addr \<Rightarrow> addr \<Rightarrow> 'a option dtype option \<Rightarrow> bool
     \<Rightarrow> 'a option stochastic outcome" where
  "Stochastic_init ext h n v dt isd =
     (let s = \<lparr>heap = h, next_addr = n, isdata = isd, missing = None, s_dtype = dt,
                s_value = v, last_value = None\<rparr> in
      and_then (initial_value ext s) (\<lambda>s.
      and_then (gen_lazy_function ext False s) (\<lambda>s.
      and_then (coerce_initial ext s) (\<lambda>s.
      case x_logp_check ext of
        Some e \<Rightarrow> Raised e s
      | None \<Rightarrow> Done s))))"

section \<open>Histories of a stochastic\<close>

text \<open>
  The operations that read or write \<^verbatim>\<open>_value\<close> and \<^verbatim>\<open>last_value\<close> after construction: a
  write of the value (an assignment to \<^verbatim>\<open>value\<close>, also the one \<^verbatim>\<open>random()\<close> makes) and
  \<^verbatim>\<open>revert\<close>. An operation that raises leaves the object as it is at the raise.
\<close>

datatype op = Write addr | Revert

definition apply_op :: "'e stochastic \<Rightarrow> op \<Rightarrow> 'e stochastic" where
  "apply_op s x =
     (case x of
        Write v \<Rightarrow> outcome_state (set_value s v)
      | Revert \<Rightarrow> outcome_state (revert s))"

definition run :: "'e stochastic \<Rightarrow> op list \<Rightarrow> 'e stochastic" where
  "run s ops = foldl apply_op s ops"

definition completes :: "'s outcome \<Rightarrow> bool" where
  "completes r = (case r of Done s \<Rightarrow> True | Raised e s \<Rightarrow> False)"

text \<open>
  A write reaches the statement that saves \<^verbatim>\<open>last_value\<close> when the stochastic is not data,
  or when it is data with missing entries and the merge of the missing entries does not
  raise: the offered and the stored value are arrays that cover the missing indices.
\<close>

definition mergeable :: "'e stochastic \<Rightarrow> addr \<Rightarrow> bool" where
  "mergeable s new =
     (case missing s of
        Some (i # more_indices) \<Rightarrow>
          (case heap s new of
             NDArray w xs \<Rightarrow>
               list_all (\<lambda>j. j < length xs) (i # more_indices)
               \<and> (case heap s (s_value s) of
                     NDArray w' ys \<Rightarrow> list_all (\<lambda>j. j < length ys) (i # more_indices)
                   | Scalar y \<Rightarrow> False)
           | Scalar x \<Rightarrow> False)
      | Some [] \<Rightarrow> False
      | None \<Rightarrow> False)"

definition reaches_save :: "'e stochastic \<Rightarrow> addr \<Rightarrow> bool" where
  "reaches_save s new = (if isdata s then mergeable s new else True)"

text \<open>Some write of the history reached the save; some write of the history completed.\<close>

fun saved :: "'e stochastic \<Rightarrow> op list \<Rightarrow> bool" where
  "saved s [] = False"
| "saved s (Write v # ops) = (reaches_save s v \<or> saved (apply_op s (Write v)) ops)"
| "saved s (Revert # ops) = saved (apply_op s Revert) ops"

fun succeeded :: "'e stochastic \<Rightarrow> op list \<Rightarrow> bool" where
  "succeeded s [] = False"
| "succeeded s (Write v # ops) = (completes (set_value s v) \<or> succeeded (apply_op s (Write v)) ops)"
| "succeeded s (Revert # ops) = succeeded (apply_op s Revert) ops"

section \<open>Example objects\<close>

text \<open>
  Concrete graphs, binding maps and stochastics on which the theorems below are
  instantiated and the functions evaluated.
\<close>

definition plain_node :: "kind \<Rightarrow> 'c node" where
  "plain_node k = \<lparr>node_kind = k, children = {}, extended_parents = {}, extended_children = {}\<rparr>"

definition no_container :: container where
  "no_container = \<lparr>c_variables = [], c_stochastics = [], c_deterministics = []\<rparr>"

text \<open>
  The chain of the specification: stochastic \<open>0\<close>, its deterministic child \<open>1\<close>, and the
  stochastic \<open>2\<close> that depends on \<open>1\<close>.
\<close>

definition chain_graph :: "int graph" where
  "chain_graph =
     \<lparr>nodes = (\<lambda>n. plain_node Stochastic)
                (0 := (plain_node Stochastic)\<lparr>children := {1}\<rparr>,
                 1 := (plain_node Deterministic)\<lparr>children := {2}\<rparr>),
      conts = (\<lambda>c. no_container)\<rparr>"

text \<open>
  Two stochastics \<open>0\<close> and \<open>1\<close> that are both parents of the stochastic \<open>2\<close>, with the
  extended relations registered in both directions.
\<close>

definition vee_graph :: "int graph" where
  "vee_graph =
     \<lparr>nodes = (\<lambda>n. plain_node Stochastic)
                (0 := (plain_node Stochastic)\<lparr>children := {2}, extended_children := {2}\<rparr>,
                 1 := (plain_node Stochastic)\<lparr>children := {2}, extended_children := {2}\<rparr>,
                 2 := (plain_node Stochastic)\<lparr>extended_parents := {Node 0, Node 1}\<rparr>),
      conts = (\<lambda>c. no_container)\<rparr>"

text \<open>
  A graph for the binding map: the owner \<open>0\<close>, the stochastics \<open>1\<close> and \<open>2\<close>, the
  deterministic \<open>3\<close> whose extended parent is \<open>1\<close>, and the container \<open>0\<close> that holds \<open>2\<close>
  and \<open>3\<close>.
\<close>

definition base_graph :: "int graph" where
  "base_graph =
     \<lparr>nodes = (\<lambda>n. plain_node Stochastic)
                (3 := (plain_node Deterministic)\<lparr>extended_parents := {Node 1}\<rparr>),
      conts = (\<lambda>c. no_container)
                (0 := \<lparr>c_variables = [2, 3], c_stochastics = [2], c_deterministics = [3]\<rparr>)\<rparr>"

text \<open>
  The owner \<open>0\<close> constructed with the parent \<open>1\<close> under the key \<^verbatim>\<open>mu\<close>, and with the
  container \<open>0\<close> under the key \<^verbatim>\<open>mu\<close>: \<^verbatim>\<open>ParentDict.__init__\<close> followed by
  \<^verbatim>\<open>attach_parents\<close>.
\<close>

definition bound_to_variable :: "int pstate" where
  "bound_to_variable = attach_parents (ParentDict_init base_graph [(''mu'', Node 1)] 0)"

definition bound_to_container :: "int pstate" where
  "bound_to_container = attach_parents (ParentDict_init base_graph [(''mu'', Cont 0)] 0)"

text \<open>
  Stochastics. The store holds the array \<open>[1, 2, 7]\<close> at address \<open>0\<close> and the array
  \<open>[10, 20, 30]\<close> at address \<open>1\<close>; the stored value is the object at \<open>0\<close>. The first is free
  to be written, the second is observed data, the third is observed data whose entry \<open>2\<close>
  is missing; its store also holds the short array \<open>[10]\<close> at address \<open>2\<close> and a scalar at
  address \<open>3\<close>.
\<close>

definition free_stochastic :: "int stochastic" where
  "free_stochastic =
     \<lparr>heap = (\<lambda>a. Scalar 0)(0 := NDArray False [1, 2, 7], 1 := NDArray True [10, 20, 30]),
      next_addr = 2, isdata = False, missing = None, s_dtype = None,
      s_value = 0, last_value = None\<rparr>"



text \<open>
  Constructed stochastics. Entries are numbers or strings. The \<^verbatim>\<open>dtype\<close> is Python's
  \<^verbatim>\<open>float\<close>: its call accepts a number, rejects a string that is no numeral with a
  \<^verbatim>\<open>ValueError\<close> and anything else with a \<^verbatim>\<open>TypeError\<close>; it is never the \<^verbatim>\<open>dtype\<close> object of
  an array. The store holds the number \<open>1\<close> at address \<open>0\<close>, the string \<^verbatim>\<open>abc\<close> at address
  \<open>1\<close> and the number \<open>2\<close> at address \<open>2\<close>. Both stochastics are constructed with the value
  at \<open>0\<close> and no random method; the second is observed data.
\<close>

definition is_number :: "(int + string) option \<Rightarrow> bool" where
  "is_number x = (case x of Some (Inl n) \<Rightarrow> True | _ \<Rightarrow> False)"

definition float_dtype :: "(int + string) option dtype" where
  "float_dtype =
     \<lparr>dt_call = (\<lambda>v. case v of
                        Scalar (Some (Inl n)) \<Rightarrow> Inr (Scalar (Some (Inl n)))
                      | Scalar (Some (Inr str)) \<Rightarrow> Inl ValueError
                      | Scalar None \<Rightarrow> Inl TypeError
                      | NDArray w xs \<Rightarrow> Inl TypeError),
      dt_asarray = (\<lambda>v. case v of
                           NDArray w xs \<Rightarrow> if list_all is_number xs then Inr (NDArray True xs)
                                            else Inl ValueError
                         | Scalar x \<Rightarrow> if is_number x then Inr (NDArray True [x])
                                        else Inl ValueError),
      dt_is_dtype_of = (\<lambda>v. False), dt_truthy = True, dt_is_object = False\<rparr>"

definition plain_externals :: "(int + string) externals" where
  "plain_externals =
     \<lparr>x_random = None,
      x_asarray = (\<lambda>v. case v of NDArray w xs \<Rightarrow> Inr (NDArray w xs)
                               | Scalar x \<Rightarrow> Inr (NDArray True [x])),
      x_force_compute = None, x_logp_check = None\<rparr>"

definition float_store :: "addr \<Rightarrow> (int + string) option pyval" where
  "float_store =
     (\<lambda>a. Scalar None)(0 := Scalar (Some (Inl 1)), 1 := Scalar (Some (Inr ''abc'')),
                        2 := Scalar (Some (Inl 2)))"

definition float_stochastic :: "(int + string) option stochastic" where
  "float_stochastic =
     outcome_state (Stochastic_init plain_externals float_store 3 0 (Some float_dtype) False)"

definition float_data :: "(int + string) option stochastic" where
  "float_data =
     outcome_state (Stochastic_init plain_externals float_store 3 0 (Some float_dtype) True)"

text \<open>
  The scenario of the specification: observed data constructed with the value
  \<open>[1, 2, None]\<close> (address \<open>0\<close>), no \<^verbatim>\<open>dtype\<close>, and a random method that draws \<open>[7, 8, 9]\<close>.
  The store also holds a number at address \<open>1\<close> and the array \<open>[10, 20, 30]\<close> at address
  \<open>2\<close>.
\<close>

definition drawing_externals :: "(int + string) externals" where
  "drawing_externals =
     plain_externals\<lparr>x_random :=
        Some (\<lambda>k. Inr (NDArray True [Some (Inl 7), Some (Inl 8), Some (Inl 9)]))\<rparr>"

definition gappy_store :: "addr \<Rightarrow> (int + string) option pyval" where
  "gappy_store =
     (\<lambda>a. Scalar None)(0 := NDArray True [Some (Inl 1), Some (Inl 2), None],
                        1 := Scalar (Some (Inl 5)),
                        2 := NDArray True [Some (Inl 10), Some (Inl 20), Some (Inl 30)])"

definition gappy_data :: "(int + string) option stochastic" where
  "gappy_data = outcome_state (Stochastic_init drawing_externals gappy_store 3 0 None True)"

section \<open>The closure of the children\<close>

lemma det_edges_subset: "det_edges g \<subseteq> child_rel g"
  by (auto simp: det_edges_def child_rel_def)

lemma dag_det_finite: "dag g \<Longrightarrow> finite (det_edges g)"
  using det_edges_subset[of g] by (auto simp: dag_def intro: finite_subset)

lemma dag_det_acyclic: "dag g \<Longrightarrow> acyclic (det_edges g)"
  using det_edges_subset[of g] by (auto simp: dag_def intro: acyclic_subset)

lemma finite_descendants:
  assumes "finite r"
  shows "finite {y. (x, y) \<in> r\<^sup>+}"
proof -
  have "{y. (x, y) \<in> r\<^sup>+} \<subseteq> Range r"
    by (auto elim: trancl.cases)
  moreover have "finite (Range r)" using assms by (rule finite_Range)
  ultimately show ?thesis by (rule finite_subset)
qed

lemma det_rank_decreases:
  assumes "dag g" and "(d, c) \<in> det_edges g"
  shows "det_rank g c < det_rank g d"
proof -
  let ?r = "det_edges g"
  have fin: "finite {y. (d, y) \<in> ?r\<^sup>+}"
    using assms(1) by (intro finite_descendants dag_det_finite)
  have "c \<notin> {y. (c, y) \<in> ?r\<^sup>+}"
    using dag_det_acyclic[OF assms(1)] by (auto simp: acyclic_def)
  moreover have "c \<in> {y. (d, y) \<in> ?r\<^sup>+}"
    using assms(2) by auto
  moreover have "{y. (c, y) \<in> ?r\<^sup>+} \<subseteq> {y. (d, y) \<in> ?r\<^sup>+}"
    using assms(2) by (auto intro: trancl_into_trancl2)
  ultimately have "{y. (c, y) \<in> ?r\<^sup>+} \<subset> {y. (d, y) \<in> ?r\<^sup>+}"
    by blast
  then show ?thesis
    unfolding det_rank_def using fin by (rule psubset_card_mono[rotated])
qed

lemma det_rank_bound:
  assumes "dag g"
  shows "det_rank g x < Suc (card (Range (det_edges g)))"
proof -
  have "{y. (x, y) \<in> (det_edges g)\<^sup>+} \<subseteq> Range (det_edges g)"
    by (auto elim: trancl.cases)
  then have "det_rank g x \<le> card (Range (det_edges g))"
    unfolding det_rank_def
    using dag_det_finite[OF assms] by (intro card_mono finite_Range)
  then show ?thesis by simp
qed

lemma no_det_new_children:
  "dtrm_children g cs = {} \<Longrightarrow> new_children g cs = cs"
  by (simp add: new_children_def)

lemma extend_children_rec:
  "dtrm_children g cs \<noteq> {} \<Longrightarrow> extend_children g cs = extend_children g (new_children g cs)"
  by (subst extend_children.simps) simp

lemma extend_children_stop:
  "dtrm_children g cs = {} \<Longrightarrow> extend_children g cs = Some cs"
  by (subst extend_children.simps) (simp add: no_det_new_children)

lemma no_det_spec_replace:
  "dtrm_children g cs = {} \<Longrightarrow> spec_replace g cs = cs"
  by (simp add: spec_replace_def)

lemma no_det_descendants:
  assumes "dtrm_children g cs = {}"
  shows "density_descendants g cs = cs"
proof -
  have step: "y = x" if "x \<in> cs" and "(x, y) \<in> (det_edges g)\<^sup>*" for x y
    using that(2, 1) assms
    by (induction rule: converse_rtrancl_induct) (auto simp: det_edges_def dtrm_children_def)
  show ?thesis
    using assms step by (auto simp: density_descendants_def dtrm_children_def)
qed

lemma descendants_via_step:
  assumes sub: "\<And>c. c \<in> cs \<Longrightarrow> \<not> is_Deterministic g c \<Longrightarrow> c \<in> cs'"
    and kids: "\<And>d c. d \<in> cs \<Longrightarrow> is_Deterministic g d \<Longrightarrow> c \<in> children (nodes g d) \<Longrightarrow> c \<in> cs' \<or> (c \<in> cs \<and> is_Deterministic g c)"
    and origin: "\<And>c. c \<in> cs' \<Longrightarrow> c \<in> cs \<or> (\<exists>d \<in> cs. is_Deterministic g d \<and> c \<in> children (nodes g d))"
  shows "density_descendants g cs' = density_descendants g cs"
proof (intro set_eqI iffI)
  fix y assume "y \<in> density_descendants g cs'"
  then obtain x where y: "\<not> is_Deterministic g y" and x: "x \<in> cs'" and p: "(x, y) \<in> (det_edges g)\<^sup>*"
    by (auto simp: density_descendants_def)
  from origin[OF x] show "y \<in> density_descendants g cs"
  proof
    assume "x \<in> cs" with y p show ?thesis by (auto simp: density_descendants_def)
  next
    assume "\<exists>d \<in> cs. is_Deterministic g d \<and> x \<in> children (nodes g d)"
    then obtain d where d: "d \<in> cs" "(d, x) \<in> det_edges g" by (auto simp: det_edges_def)
    then have "(d, y) \<in> (det_edges g)\<^sup>*" using p by (meson converse_rtrancl_into_rtrancl)
    with d y show ?thesis by (auto simp: density_descendants_def)
  qed
next
  fix y assume "y \<in> density_descendants g cs"
  then obtain x where y: "\<not> is_Deterministic g y" and x: "x \<in> cs" and p: "(x, y) \<in> (det_edges g)\<^sup>*"
    by (auto simp: density_descendants_def)
  from p x have "\<exists>x' \<in> cs'. (x', y) \<in> (det_edges g)\<^sup>*"
  proof (induction rule: converse_rtrancl_induct)
    case base
    then show ?case using sub y by blast
  next
    case (step a b)
    then have a: "is_Deterministic g a" "b \<in> children (nodes g a)" by (auto simp: det_edges_def)
    from kids[OF step.prems a] show ?case
    proof
      assume "b \<in> cs'" with step.hyps show ?thesis by blast
    next
      assume "b \<in> cs \<and> is_Deterministic g b" with step.IH show ?thesis by blast
    qed
  qed
  with y show "y \<in> density_descendants g cs'" by (auto simp: density_descendants_def)
qed

lemma descendants_new_children:
  "density_descendants g (new_children g cs) = density_descendants g cs"
  by (rule descendants_via_step) (auto simp: new_children_def dtrm_children_def)

lemma descendants_spec_replace:
  "density_descendants g (spec_replace g cs) = density_descendants g cs"
  by (rule descendants_via_step) (auto simp: spec_replace_def dtrm_children_def)

lemma rank_new_children:
  assumes "dag g" and "\<And>d. d \<in> cs \<Longrightarrow> is_Deterministic g d \<Longrightarrow> det_rank g d < Suc n"
    and "d' \<in> new_children g cs" and "is_Deterministic g d'"
  shows "det_rank g d' < n"
proof -
  from assms(3,4) obtain d where d: "d \<in> cs" "is_Deterministic g d" "d' \<in> children (nodes g d)"
    by (auto simp: new_children_def dtrm_children_def)
  then have "(d, d') \<in> det_edges g" by (simp add: det_edges_def)
  from det_rank_decreases[OF assms(1) this] assms(2)[OF d(1,2)] show ?thesis by simp
qed

lemma rank_spec_replace:
  assumes "dag g" and "\<And>d. d \<in> cs \<Longrightarrow> is_Deterministic g d \<Longrightarrow> det_rank g d < Suc n"
    and "d' \<in> spec_replace g cs" and "is_Deterministic g d'"
  shows "det_rank g d' < n"
proof -
  from assms(3,4) obtain d where d: "d \<in> cs" "is_Deterministic g d" "d' \<in> children (nodes g d)"
    by (auto simp: spec_replace_def dtrm_children_def)
  then have "(d, d') \<in> det_edges g" by (simp add: det_edges_def)
  from det_rank_decreases[OF assms(1) this] assms(2)[OF d(1,2)] show ?thesis by simp
qed

lemma extend_children_ranked:
  assumes "dag g"
  shows "(\<And>d. d \<in> cs \<Longrightarrow> is_Deterministic g d \<Longrightarrow> det_rank g d < n)
         \<Longrightarrow> extend_children g cs = Some (density_descendants g cs)"
proof (induction n arbitrary: cs)
  case 0
  then have nd: "dtrm_children g cs = {}" by (auto simp: dtrm_children_def)
  show ?case
    by (subst extend_children.simps) (simp add: nd no_det_new_children no_det_descendants)
next
  case (Suc n)
  show ?case
  proof (cases "dtrm_children g cs = {}")
    case True
    then show ?thesis
      by (subst extend_children.simps) (simp add: no_det_new_children no_det_descendants)
  next
    case False
    have "extend_children g (new_children g cs) = Some (density_descendants g (new_children g cs))"
      by (rule Suc.IH) (rule rank_new_children[OF assms Suc.prems])
    with False show ?thesis
      by (subst extend_children.simps) (simp add: descendants_new_children)
  qed
qed

lemma spec_replace_ranked:
  assumes "dag g"
  shows "(\<And>d. d \<in> cs \<Longrightarrow> is_Deterministic g d \<Longrightarrow> det_rank g d < n)
         \<Longrightarrow> (spec_replace g ^^ n) cs = density_descendants g cs"
proof (induction n arbitrary: cs)
  case 0
  then have nd: "dtrm_children g cs = {}" by (auto simp: dtrm_children_def)
  then show ?case by (simp add: no_det_descendants)
next
  case (Suc n)
  have "(spec_replace g ^^ n) (spec_replace g cs) = density_descendants g (spec_replace g cs)"
    by (rule Suc.IH) (rule rank_spec_replace[OF assms Suc.prems])
  then show ?case
    by (simp add: funpow_swap1 descendants_spec_replace)
qed

lemma descendants_no_det: "dtrm_children g (density_descendants g cs) = {}"
  by (auto simp: dtrm_children_def density_descendants_def)

text \<open>
  Claim C5. On a finite acyclic graph \<^verbatim>\<open>extend_children\<close> returns, for every seed set, and
  what it returns is the fixed point reached by repeatedly replacing each deterministic
  member by its own children set: it is an iterate of the replacement step, the step
  leaves it unchanged, it has no deterministic member, and it is the set of nearest
  descendants of the seed that are not deterministic.
\<close>

theorem extend_children_fixed_point:
  assumes "dag g"
  shows "\<exists>r n. extend_children g cs = Some r
           \<and> r = (spec_replace g ^^ n) cs
           \<and> spec_replace g r = r
           \<and> (\<forall>c \<in> r. \<not> is_Deterministic g c)
           \<and> r = density_descendants g cs"
proof -
  let ?n = "Suc (card (Range (det_edges g)))"
  let ?r = "density_descendants g cs"
  have "extend_children g cs = Some ?r"
    by (rule extend_children_ranked[OF assms, of cs ?n]) (rule det_rank_bound[OF assms])
  moreover have "?r = (spec_replace g ^^ ?n) cs"
    by (rule spec_replace_ranked[OF assms, symmetric]) (rule det_rank_bound[OF assms])
  moreover have "spec_replace g ?r = ?r"
    by (rule no_det_spec_replace) (rule descendants_no_det)
  moreover have "\<forall>c \<in> ?r. \<not> is_Deterministic g c"
    by (simp add: density_descendants_def)
  ultimately show ?thesis by blast
qed

lemma chain_graph_child_rel: "child_rel chain_graph = {(0, 1), (1, 2)}"
  by (auto simp: child_rel_def chain_graph_def plain_node_def split: if_splits)

lemma chain_graph_dag: "dag chain_graph"
proof -
  have "acyclic {(0::nat, 1::nat), (1, 2)}"
    by (rule acyclicI_order[where f = "\<lambda>n. 2 - n"]) auto
  then show ?thesis by (simp add: dag_def chain_graph_child_rel)
qed

lemma chain_graph_extend_children: "extend_children chain_graph {1} = Some {2}"
proof -
  have one: "dtrm_children chain_graph {1} = {1}"
    by (auto simp: dtrm_children_def is_Deterministic_def chain_graph_def plain_node_def)
  have two: "dtrm_children chain_graph {2} = {}"
    by (auto simp: dtrm_children_def is_Deterministic_def chain_graph_def plain_node_def)
  have step: "new_children chain_graph {1} = {2}"
    unfolding new_children_def one by (auto simp: chain_graph_def plain_node_def)
  have "dtrm_children chain_graph {1} \<noteq> {}"
    unfolding one by simp
  from extend_children_rec[OF this]
  have "extend_children chain_graph {1} = extend_children chain_graph {2}"
    unfolding step .
  also have "\<dots> = Some {2}"
    by (rule extend_children_stop[OF two])
  finally show ?thesis .
qed

theorem extend_children_fixed_point_witness:
  "dag chain_graph
   \<and> (\<exists>r n. extend_children chain_graph {1} = Some r
          \<and> r = (spec_replace chain_graph ^^ n) {1}
          \<and> spec_replace chain_graph r = r
          \<and> (\<forall>c \<in> r. \<not> is_Deterministic chain_graph c)
          \<and> r = density_descendants chain_graph {1})
   \<and> extend_children chain_graph {1} = Some {2}"
  using extend_children_fixed_point[OF chain_graph_dag, of "{1}"]
        chain_graph_dag chain_graph_extend_children
  by simp

section \<open>Symmetry of the Markov blanket\<close>

lemma in_markov_blanket_iff:
  "Node a \<in> markov_blanket g b \<longleftrightarrow>
     a = b
     \<or> (node_kind (nodes g a) \<noteq> Potential
        \<and> ((\<exists>child \<in> extended_children (nodes g b). Node a \<in> extended_parents (nodes g child))
            \<or> Node a \<in> extended_parents (nodes g b)
            \<or> a \<in> extended_children (nodes g b)))"
  by (auto simp: markov_blanket_def moral_neighbors_def coparents_def is_PotentialBase_def)

lemma consistentD1:
  "consistent g \<Longrightarrow> node_kind (nodes g p) = Stochastic \<Longrightarrow> c \<in> extended_children (nodes g p)
   \<Longrightarrow> node_kind (nodes g c) \<noteq> Deterministic \<and> Node p \<in> extended_parents (nodes g c)"
  unfolding consistent_def by blast

lemma consistentD2:
  "consistent g \<Longrightarrow> node_kind (nodes g p) = Stochastic \<Longrightarrow> node_kind (nodes g c) \<noteq> Deterministic
   \<Longrightarrow> Node p \<in> extended_parents (nodes g c) \<Longrightarrow> c \<in> extended_children (nodes g p)"
  unfolding consistent_def by blast

text \<open>
  Claim C9. In a consistently registered graph, membership in the Markov blanket is
  symmetric between stochastic nodes: if \<open>a\<close> is in the blanket of \<open>b\<close>, then \<open>b\<close> is in the
  blanket of \<open>a\<close>.
\<close>

theorem markov_blanket_symmetric:
  assumes cons: "consistent g"
    and a: "node_kind (nodes g a) = Stochastic"
    and b: "node_kind (nodes g b) = Stochastic"
    and mem: "Node a \<in> markov_blanket g b"
  shows "Node b \<in> markov_blanket g a"
proof -
  have nb: "node_kind (nodes g b) \<noteq> Potential" and db: "node_kind (nodes g b) \<noteq> Deterministic"
    using b by simp_all
  from mem consider
      (same) "a = b"
    | (coparent) child where "child \<in> extended_children (nodes g b)"
        "Node a \<in> extended_parents (nodes g child)"
    | (parent) "Node a \<in> extended_parents (nodes g b)"
    | (child) "a \<in> extended_children (nodes g b)"
    unfolding in_markov_blanket_iff by blast
  then show ?thesis
  proof cases
    case same
    then show ?thesis by (simp add: in_markov_blanket_iff)
  next
    case coparent
    from consistentD1[OF cons b coparent(1)]
    have dens: "node_kind (nodes g child) \<noteq> Deterministic"
      and back_link: "Node b \<in> extended_parents (nodes g child)" by simp_all
    from consistentD2[OF cons a dens coparent(2)]
    have "child \<in> extended_children (nodes g a)" .
    with back_link nb show ?thesis
      unfolding in_markov_blanket_iff by blast
  next
    case parent
    from consistentD2[OF cons a db parent]
    have "b \<in> extended_children (nodes g a)" .
    with nb show ?thesis
      unfolding in_markov_blanket_iff by blast
  next
    case child
    from consistentD1[OF cons b child]
    have "Node b \<in> extended_parents (nodes g a)" by simp
    with nb show ?thesis
      unfolding in_markov_blanket_iff by blast
  qed
qed

lemma vee_graph_consistent: "consistent vee_graph"
  unfolding consistent_def
  by (auto simp: vee_graph_def plain_node_def split: if_splits)

lemma vee_graph_blanket: "Node 0 \<in> markov_blanket vee_graph 1"
  by (simp add: in_markov_blanket_iff vee_graph_def plain_node_def)

theorem markov_blanket_symmetric_witness:
  "consistent vee_graph
   \<and> node_kind (nodes vee_graph 0) = Stochastic
   \<and> node_kind (nodes vee_graph 1) = Stochastic
   \<and> Node 0 \<in> markov_blanket vee_graph 1
   \<and> Node 1 \<in> markov_blanket vee_graph 0"
proof -
  have k0: "node_kind (nodes vee_graph 0) = Stochastic"
    and k1: "node_kind (nodes vee_graph 1) = Stochastic"
    by (simp_all add: vee_graph_def plain_node_def)
  from markov_blanket_symmetric[OF vee_graph_consistent k0 k1 vee_graph_blanket]
  show ?thesis
    using vee_graph_consistent k0 k1 vee_graph_blanket by simp
qed

section \<open>The checks on a log-probability\<close>

lemma sentinel_below: "(- (8968653411040153 * 2 ^ 971) :: real) < - 5"
proof -
  have h: "(1::real) \<le> 2 ^ 971" by (rule one_le_power) simp
  have "(8968653411040153::real) * 1 \<le> 8968653411040153 * 2 ^ 971"
    by (rule mult_left_mono[OF h]) simp
  then have "(5::real) < 8968653411040153 * 2 ^ 971" by linarith
  then show ?thesis by (simp only: neg_less_iff_less)
qed

lemma d_neg_inf_Finite: "\<exists>r. d_neg_inf = Finite r \<and> r < - 5"
  using sentinel_below unfolding d_neg_inf_def by blast

lemma float_le_cases:
  "x \<noteq> NaN \<Longrightarrow> \<not> float_le x d_neg_inf \<Longrightarrow> is_finite x \<or> x = PosInf"
proof -
  from d_neg_inf_Finite obtain r where r: "d_neg_inf = Finite r" by blast
  show "x \<noteq> NaN \<Longrightarrow> \<not> float_le x d_neg_inf \<Longrightarrow> is_finite x \<or> x = PosInf"
    unfolding r by (cases x) (simp_all add: is_finite_def)
qed

lemma float_le_above: "\<not> float_le (Finite (- 5)) d_neg_inf"
proof -
  from d_neg_inf_Finite obtain r where r: "d_neg_inf = Finite r" "r < - 5" by blast
  show ?thesis unfolding r(1) using r(2) by simp
qed

lemma float_le_PosInf: "\<not> float_le PosInf d_neg_inf"
proof -
  from d_neg_inf_Finite obtain r where r: "d_neg_inf = Finite r" "r < - 5" by blast
  show ?thesis unfolding r(1) using r(2) by simp
qed

lemma float_le_sentinel: "float_le d_neg_inf d_neg_inf"
proof -
  from d_neg_inf_Finite obtain r where r: "d_neg_inf = Finite r" by blast
  show ?thesis unfolding r by simp
qed

lemma float_le_NegInf: "float_le NegInf d_neg_inf"
proof -
  from d_neg_inf_Finite obtain r where r: "d_neg_inf = Finite r" "r < - 5" by blast
  show ?thesis unfolding r(1) using r(2) by simp
qed

text \<open>
  Claim C3, amended. Reading \<^verbatim>\<open>logp\<close> on a stochastic or a potential applies the same
  checks to the evaluator's raw result, in this order: a result that \<^verbatim>\<open>float()\<close> rejects
  raises the type error; one that converts to NaN raises the value error; one at or below
  \<^verbatim>\<open>d_neg_inf\<close> raises the zero-probability error, with the node's name, the parents'
  values and (for a stochastic) its value; every other float is returned as it is. The
  returned float is finite or positive infinity.
\<close>

theorem get_logp_checks:
  "(to_float raw = None \<longrightarrow>
      Stochastic_get_logp to_float name (v::'v) (pv::'p) raw = Inl (LogpTypeError name)
      \<and> (Potential_get_logp to_float name pv raw :: ('v, 'p) logp_exn + pyfloat) = Inl (LogpTypeError name))
   \<and> (to_float raw = Some NaN \<longrightarrow>
      Stochastic_get_logp to_float name v pv raw = Inl (LogpValueError name)
      \<and> (Potential_get_logp to_float name pv raw :: ('v, 'p) logp_exn + pyfloat) = Inl (LogpValueError name))
   \<and> (\<forall>x. to_float raw = Some x \<and> x \<noteq> NaN \<and> float_le x d_neg_inf \<longrightarrow>
      Stochastic_get_logp to_float name v pv raw = Inl (ZeroProbability name (Some v) pv)
      \<and> (Potential_get_logp to_float name pv raw :: ('v, 'p) logp_exn + pyfloat) = Inl (ZeroProbability name None pv))
   \<and> (\<forall>x. to_float raw = Some x \<and> x \<noteq> NaN \<and> \<not> float_le x d_neg_inf \<longrightarrow>
      Stochastic_get_logp to_float name v pv raw = Inr x
      \<and> (Potential_get_logp to_float name pv raw :: ('v, 'p) logp_exn + pyfloat) = Inr x
      \<and> (is_finite x \<or> x = PosInf))"
  by (auto simp: Stochastic_get_logp_def Potential_get_logp_def isnan_def
           dest: float_le_cases)

theorem get_logp_checks_witness:
  "Stochastic_get_logp (\<lambda>r. r) ''x'' (0::int) [1::int] None = Inl (LogpTypeError ''x'')
   \<and> Stochastic_get_logp (\<lambda>r. r) ''x'' (0::int) [1::int] (Some NaN) = Inl (LogpValueError ''x'')
   \<and> Stochastic_get_logp (\<lambda>r. r) ''x'' (0::int) [1::int] (Some NegInf)
       = Inl (ZeroProbability ''x'' (Some 0) [1])
   \<and> Stochastic_get_logp (\<lambda>r. r) ''x'' (0::int) [1::int] (Some d_neg_inf)
       = Inl (ZeroProbability ''x'' (Some 0) [1])
   \<and> (Potential_get_logp (\<lambda>r. r) ''x'' [1::int] (Some d_neg_inf) :: (int, int list) logp_exn + pyfloat)
       = Inl (ZeroProbability ''x'' None [1])
   \<and> Stochastic_get_logp (\<lambda>r. r) ''x'' (0::int) [1::int] (Some (Finite (- 5))) = Inr (Finite (- 5))
   \<and> is_finite (Finite (- 5))"
proof -
  from d_neg_inf_Finite have nn: "d_neg_inf \<noteq> NaN" by auto
  show ?thesis
    using get_logp_checks[of "\<lambda>r. r" None "''x''" "0::int" "[1::int]"]
        get_logp_checks[of "\<lambda>r. r" "Some NaN" "''x''" "0::int" "[1::int]"]
        get_logp_checks[of "\<lambda>r. r" "Some NegInf" "''x''" "0::int" "[1::int]"]
        get_logp_checks[of "\<lambda>r. r" "Some d_neg_inf" "''x''" "0::int" "[1::int]"]
        get_logp_checks[of "\<lambda>r. r" "Some (Finite (- 5))" "''x''" "0::int" "[1::int]"]
    by (simp add: float_le_above float_le_NegInf float_le_sentinel nn is_finite_def)
qed

text \<open>
  The claim as stated promises a finite float in the last case. Positive infinity
  converts, is not NaN and is above the sentinel, so it is returned.
\<close>

theorem get_logp_returns_infinity:
  "Stochastic_get_logp (\<lambda>r. r) ''x'' (0::int) [1::int] (Some PosInf) = Inr PosInf
   \<and> (Potential_get_logp (\<lambda>r. r) ''x'' [1::int] (Some PosInf) :: (int, int list) logp_exn + pyfloat)
       = Inr PosInf
   \<and> \<not> is_finite PosInf"
  by (simp add: Stochastic_get_logp_def Potential_get_logp_def isnan_def is_finite_def
        float_le_PosInf)

section \<open>The binding map on the example graph\<close>

lemmas graph_defs = ParentDict_init_def attach_parents_def flat_variables_def
  is_Variable_def is_ContainerBase_def is_StochasticBase_def is_PotentialBase_def
  extend_parents_def extend_parents_step_def set_extended_parents_def
  attach_extended_parents_def detach_extended_parents_def children_add_def
  children_discard_def children_remove_def itervalues_def base_graph_def plain_node_def
  no_container_def Let_def

lemmas setitem_defs = setitem_def setitem_old_def setitem_new_def setitem_finish_def
  and_then_def list_remove_def count_is_def file_items_def

lemma fold_insert_Node:
  "fold (\<lambda>contained_parent acc. insert (Node contained_parent) acc) xs a = Node ` set xs \<union> a"
  by (induction xs arbitrary: a) auto

lemma fold_union_extended:
  "fold (\<lambda>contained_parent acc. acc \<union> f contained_parent) xs a = a \<union> (\<Union>x \<in> set xs. f x)"
  by (induction xs arbitrary: a) auto

text \<open>What a container among the parents contributes: its members and itself.\<close>

lemma extend_parents_container:
  "extend_parents g [Cont c] =
     insert (Cont c)
       (Node ` set (c_stochastics (conts g c))
        \<union> (\<Union>d \<in> set (c_deterministics (conts g c)). extended_parents (nodes g d)))"
  by (auto simp: extend_parents_def extend_parents_step_def fold_insert_Node fold_union_extended)

text \<open>
  Claim C4, evaluated. For the container \<open>0\<close> of the example graph, which holds the
  stochastic \<open>2\<close> and the deterministic \<open>3\<close> (extended parent \<open>1\<close>), \<^verbatim>\<open>extend_parents\<close>
  returns the two stochastics and the container object itself.
\<close>

theorem extend_parents_keeps_container:
  "extend_parents base_graph [Cont 0] = {Node 1, Node 2, Cont 0}
   \<and> Cont 0 \<in> extend_parents base_graph [Cont 0]"
  by (simp add: graph_defs)

text \<open>
  Claim C1, evaluated. The owner \<open>0\<close> is bound to the stochastic \<open>1\<close> under \<^verbatim>\<open>mu\<close> and
  rebound to the stochastic \<open>2\<close>. The rebind completes and stores the new binding, but the
  owner's \<^verbatim>\<open>extended_parents\<close> is still the set of the old binding, not
  \<^verbatim>\<open>extend_parents\<close> of the current one.
\<close>

theorem setitem_extended_parents_stale:
  "case setitem bound_to_variable ''mu'' (Node 2) of
     Done st \<Rightarrow>
       pd_items (pd st) = [(''mu'', Node 2)] \<and> variables (pd st) = [2]
       \<and> extended_parents (nodes st 0) = {Node 1}
       \<and> extend_parents st (map Node (variables (pd st))) = {Node 2}
   | Raised e st \<Rightarrow> False"
  by (simp add: bound_to_variable_def graph_defs setitem_defs)

text \<open>
  Claim C2, evaluated. Rebinding \<^verbatim>\<open>mu\<close> from the stochastic \<open>1\<close> to the container \<open>0\<close>
  raises, and the owner is in the children set of neither contained variable. Rebinding
  \<^verbatim>\<open>mu\<close> from the container \<open>0\<close> to a constant completes, and the owner stays in the
  children sets of both contained variables although no key references them any more.
\<close>

theorem setitem_container_registration:
  "(case setitem bound_to_variable ''mu'' (Cont 0) of
      Done st \<Rightarrow> False
    | Raised e st \<Rightarrow>
        e = AttributeError \<and> 0 \<notin> children (nodes st 2) \<and> 0 \<notin> children (nodes st 3))
   \<and> (case setitem bound_to_container ''mu'' (Const 5) of
      Done st \<Rightarrow>
        pd_items (pd st) = [(''mu'', Const 5)]
        \<and> 0 \<in> children (nodes st 2) \<and> 0 \<in> children (nodes st 3)
    | Raised e st \<Rightarrow> False)"
  by (simp add: bound_to_variable_def bound_to_container_def graph_defs setitem_defs)

text \<open>
  Claim C6, evaluated. With the container \<open>0\<close> bound under \<^verbatim>\<open>mu\<close>, \<^verbatim>\<open>detach_parents\<close>
  raises at the first contained variable; the owner is still in the children sets of the
  contained variables and in the extended children of its extended parents.
\<close>

theorem detach_parents_container_raises:
  "case detach_parents bound_to_container of
     Done st \<Rightarrow> False
   | Raised e st \<Rightarrow>
       e = AttributeError \<and> 0 \<in> children (nodes st 2) \<and> 0 \<in> children (nodes st 3)
       \<and> 0 \<in> extended_children (nodes st 2)"
  by (simp add: bound_to_container_def detach_parents_def and_then_def graph_defs)

section \<open>Writing and reverting the value of a stochastic\<close>

lemma save_and_assign_last_value:
  "last_value (outcome_state (save_and_assign s new)) = Some (s_value s)"
  by (auto simp: save_and_assign_def outcome_state_def alloc_def Let_def
           split: pyval.splits option.splits sum.splits)

lemma save_and_assign_entries:
  "a < next_addr s \<Longrightarrow>
     entries (heap (outcome_state (save_and_assign s new)) a) = entries (heap s a)"
  by (auto simp: save_and_assign_def outcome_state_def alloc_def Let_def entries_def
           split: pyval.splits option.splits sum.splits)

text \<open>
  Claim C8. For a stochastic that is not data, a successful write leaves in \<^verbatim>\<open>last_value\<close>
  the address of the object that was the value before (the same object, not a copy), and
  \<^verbatim>\<open>revert\<close> then makes that object the value again, with the entries it had before the
  write.
\<close>

theorem set_value_then_revert:
  assumes "\<not> isdata s"
    and "set_value s new = Done s'"
    and "s_value s < next_addr s"
  shows "last_value s' = Some (s_value s)
         \<and> (\<exists>s''. revert s' = Done s''
                \<and> s_value s'' = s_value s
                \<and> entries (heap s'' (s_value s'')) = entries (heap s (s_value s)))"
proof -
  from assms(1,2) have wrote: "save_and_assign s new = Done s'"
    by (simp add: set_value_def)
  have lv: "last_value s' = Some (s_value s)"
    using save_and_assign_last_value[of s new] by (simp add: wrote outcome_state_def)
  have en: "entries (heap s' (s_value s)) = entries (heap s (s_value s))"
    using save_and_assign_entries[OF assms(3), of new] by (simp add: wrote outcome_state_def)
  show ?thesis
    using lv en by (simp add: revert_def)
qed

lemma free_stochastic_write:
  "set_value free_stochastic 1 = Done (outcome_state (set_value free_stochastic 1))"
  by (simp add: set_value_def save_and_assign_def free_stochastic_def outcome_state_def)

theorem set_value_then_revert_witness:
  "\<not> isdata free_stochastic
   \<and> s_value free_stochastic < next_addr free_stochastic
   \<and> (\<exists>s'. set_value free_stochastic 1 = Done s'
          \<and> s_value s' = 1
          \<and> last_value s' = Some 0
          \<and> (\<exists>s''. revert s' = Done s''
                 \<and> s_value s'' = 0
                 \<and> entries (heap s'' (s_value s'')) = Inl [1, 2, 7]))"
proof -
  have a: "\<not> isdata free_stochastic" and b: "s_value free_stochastic < next_addr free_stochastic"
    by (simp_all add: free_stochastic_def)
  have c: "s_value (outcome_state (set_value free_stochastic 1)) = 1"
    by (simp add: set_value_def save_and_assign_def free_stochastic_def outcome_state_def)
  have d: "s_value free_stochastic = 0"
    and e: "entries (heap free_stochastic 0) = Inl [1, 2, 7]"
    by (simp_all add: free_stochastic_def entries_def)
  from set_value_then_revert[OF a free_stochastic_write b]
  show ?thesis
    using a b c free_stochastic_write unfolding d e by metis
qed




text \<open>The data check and the failures of the merge, which all come before the save.\<close>

lemma set_value_fixed:
  "isdata s \<Longrightarrow> missing s = None \<or> missing s = Some [] \<Longrightarrow>
     set_value s new = Raised AttributeError s"
  by (auto simp: set_value_def)






text \<open>
  The merge that completes hands a fresh copy of the stored array, with the missing
  entries assigned, to the save and the coercion.
\<close>

lemma merge_missing_arrays:
  assumes "heap s new = NDArray w xs" and "list_all (\<lambda>i. i < length xs) m"
    and "heap s (s_value s) = NDArray w' ys" and "list_all (\<lambda>i. i < length ys) m"
  shows "\<exists>s2 cp. merge_missing s m new = save_and_assign s2 cp
           \<and> heap s2 cp = NDArray True (assign_indices ys m (map (\<lambda>i. xs ! i) m))
           \<and> s_dtype s2 = s_dtype s \<and> s_value s2 = s_value s"
proof -
  let ?zs = "assign_indices ys m (map (\<lambda>i. xs ! i) m)"
  let ?s1 = "snd (alloc (NDArray True ys) s)"
  let ?cp = "next_addr s"
  let ?s2 = "?s1\<lparr>heap := (heap ?s1)(?cp := NDArray True ?zs)\<rparr>"
  have "merge_missing s m new = save_and_assign ?s2 ?cp"
    using assms by (simp add: merge_missing_def alloc_def Let_def)
  moreover have "heap ?s2 ?cp = NDArray True ?zs" by simp
  moreover have "s_dtype ?s2 = s_dtype s" "s_value ?s2 = s_value s"
    by (simp_all add: alloc_def)
  ultimately show ?thesis by blast
qed








section \<open>When \<^verbatim>\<open>last_value\<close> comes to exist\<close>

lemma outcome_state_simps:
  "outcome_state (Done s) = s" "outcome_state (Raised e s) = s"
  by (simp_all add: outcome_state_def)

lemma outcome_state_and_then:
  "outcome_state (and_then r f) = (case r of Done s \<Rightarrow> outcome_state (f s) | Raised e s \<Rightarrow> s)"
  by (simp add: and_then_def outcome_state_def split: outcome.splits)

lemma and_then_keeps:
  assumes "last_value (outcome_state r) = last_value s"
    and "\<And>s'. last_value (outcome_state (f s')) = last_value s'"
  shows "last_value (outcome_state (and_then r f)) = last_value s"
  using assms by (cases r) (simp_all add: and_then_def outcome_state_def)

lemma store_result_last_value:
  "last_value (outcome_state (store_result r s)) = last_value s"
  by (auto simp: store_result_def outcome_state_simps alloc_def split: sum.splits)

lemma initial_value_last_value:
  "last_value (outcome_state (initial_value ext s)) = last_value s"
  by (auto simp: initial_value_def store_result_last_value outcome_state_simps
           split: option.splits sum.splits)

lemma draw_initial_last_value:
  "last_value (outcome_state (draw_initial ext s)) = last_value s"
  by (auto simp: draw_initial_def store_result_last_value outcome_state_simps
           split: option.splits)

lemma check_missing_last_value:
  "last_value (outcome_state (check_missing ext k s)) = last_value s"
  by (auto simp: check_missing_def outcome_state_simps Let_def
           split: pyval.splits option.splits sum.splits)

lemma gen_lazy_function_last_value:
  "last_value (outcome_state (gen_lazy_function ext has_missing s)) = last_value s"
  unfolding gen_lazy_function_def
  by (intro and_then_keeps draw_initial_last_value)
     (auto simp: check_missing_last_value outcome_state_simps split: option.splits)

lemma coerce_initial_last_value:
  "last_value (outcome_state (coerce_initial ext s)) = last_value s"
  unfolding coerce_initial_def
  by (rule and_then_keeps)
     (auto simp: store_result_last_value outcome_state_simps
           split: pyval.splits option.splits)

text \<open>The constructor never creates the attribute, whether it completes or raises.\<close>

lemma Stochastic_init_last_value:
  "last_value (outcome_state (Stochastic_init ext h n v dt isd)) = None"
proof -
  let ?s = "\<lparr>heap = h, next_addr = n, isdata = isd, missing = None, s_dtype = dt,
             s_value = v, last_value = None\<rparr>"
  have "last_value (outcome_state (Stochastic_init ext h n v dt isd)) = last_value ?s"
    unfolding Stochastic_init_def Let_def
    by (intro and_then_keeps initial_value_last_value gen_lazy_function_last_value
          coerce_initial_last_value)
       (simp add: outcome_state_simps split: option.splits)
  then show ?thesis by simp
qed

text \<open>What one write does to the attribute, and that \<^verbatim>\<open>revert\<close> does nothing to it.\<close>

lemma set_value_last_value:
  "last_value (outcome_state (set_value s new)) =
     (if reaches_save s new then Some (s_value s) else last_value s)"
proof (cases "isdata s")
  case False
  then show ?thesis
    by (simp add: set_value_def reaches_save_def save_and_assign_last_value)
next
  case True
  show ?thesis
  proof (cases "mergeable s new")
    case False
    with True show ?thesis
      by (auto simp: set_value_def merge_missing_def mergeable_def reaches_save_def
            outcome_state_def alloc_def
          split: option.splits list.splits pyval.splits if_splits)
  next
    case m: True
    then obtain i r w xs w' ys where f: "missing s = Some (i # r)"
      "heap s new = NDArray w xs" "list_all (\<lambda>j. j < length xs) (i # r)"
      "heap s (s_value s) = NDArray w' ys" "list_all (\<lambda>j. j < length ys) (i # r)"
      by (auto simp: mergeable_def split: option.splits list.splits pyval.splits)
    from merge_missing_arrays[OF f(2,3,4,5)]
    obtain s2 cp where "merge_missing s (i # r) new = save_and_assign s2 cp"
      "s_value s2 = s_value s" by blast
    with save_and_assign_last_value[of s2 cp] True m f(1) show ?thesis
      by (simp add: set_value_def reaches_save_def)
  qed
qed

lemma revert_last_value: "last_value (outcome_state (revert s)) = last_value s"
  by (simp add: revert_def outcome_state_def split: option.splits)

lemma completes_reaches_save: "completes (set_value s new) \<Longrightarrow> reaches_save s new"
  by (auto simp: completes_def set_value_def merge_missing_def mergeable_def reaches_save_def
        alloc_def
      split: option.splits list.splits pyval.splits if_splits)

lemma run_Cons: "run s (x # ops) = run (apply_op s x) ops"
  by (simp add: run_def)

lemma apply_op_last_value:
  "last_value (apply_op s x) =
     (case x of Write v \<Rightarrow> if reaches_save s v then Some (s_value s) else last_value s
              | Revert \<Rightarrow> last_value s)"
  by (simp add: apply_op_def set_value_last_value revert_last_value split: op.splits)

lemma last_value_stays:
  "last_value s \<noteq> None \<Longrightarrow> last_value (run s ops) \<noteq> None"
proof (induction ops arbitrary: s)
  case Nil
  then show ?case by (simp add: run_def)
next
  case (Cons x ops)
  have "last_value (apply_op s x) \<noteq> None"
    using Cons.prems by (simp add: apply_op_last_value split: op.splits)
  from Cons.IH[OF this] show ?case by (simp add: run_Cons)
qed

lemma last_value_absent_iff:
  "last_value s = None \<Longrightarrow> (last_value (run s ops) = None \<longleftrightarrow> \<not> saved s ops)"
proof (induction ops arbitrary: s)
  case Nil
  then show ?case by (simp add: run_def)
next
  case (Cons x ops)
  show ?case
  proof (cases x)
    case (Write v)
    show ?thesis
    proof (cases "reaches_save s v")
      case True
      then have "last_value (apply_op s (Write v)) \<noteq> None"
        by (simp add: apply_op_last_value)
      from last_value_stays[OF this] True show ?thesis
        by (simp add: Write run_Cons)
    next
      case False
      then have "last_value (apply_op s (Write v)) = None"
        using Cons.prems by (simp add: apply_op_last_value)
      from Cons.IH[OF this] False show ?thesis
        by (simp add: Write run_Cons)
    qed
  next
    case Revert
    have "last_value (apply_op s Revert) = None"
      using Cons.prems by (simp add: apply_op_last_value)
    from Cons.IH[OF this] show ?thesis
      by (simp add: Revert run_Cons)
  qed
qed

lemma succeeded_saved: "succeeded s ops \<Longrightarrow> saved s ops"
proof (induction ops arbitrary: s)
  case Nil
  then show ?case by simp
next
  case (Cons x ops)
  then show ?case
    by (cases x) (auto dest: completes_reaches_save)
qed

text \<open>
  Claim C10, amended. Take a stochastic as the constructor leaves it and any history of
  writes and reverts on it. The attribute \<^verbatim>\<open>last_value\<close> does not exist exactly when no write
  of the history has reached the save statement: every write so far was rejected by the
  data check or failed in the merge of the missing entries. Then \<^verbatim>\<open>revert\<close> and reading
  \<^verbatim>\<open>last_value\<close> raise the attribute error and change nothing. Once a write has reached the
  save, whether it then completed or failed in the coercion, the attribute exists and
  \<^verbatim>\<open>revert\<close> completes. Every write that completes has reached the save; and a write sets
  \<^verbatim>\<open>last_value\<close> to the object stored before exactly when it reaches the save.
\<close>

theorem last_value_created_by_save:
  assumes "Stochastic_init ext h n v dt isd = Done s0"
  shows "(last_value (run s0 ops) = None \<longleftrightarrow> \<not> saved s0 ops)
         \<and> (\<not> saved s0 ops \<longrightarrow>
               revert (run s0 ops) = Raised AttributeError (run s0 ops)
               \<and> get_last_value (run s0 ops) = Inl AttributeError)
         \<and> (saved s0 ops \<longrightarrow>
               completes (revert (run s0 ops))
               \<and> get_last_value (run s0 ops) \<noteq> Inl AttributeError)
         \<and> (succeeded s0 ops \<longrightarrow> saved s0 ops)
         \<and> last_value (outcome_state (set_value (run s0 ops) new)) =
             (if reaches_save (run s0 ops) new then Some (s_value (run s0 ops))
              else last_value (run s0 ops))"
proof -
  have fresh: "last_value s0 = None"
    using Stochastic_init_last_value[of ext h n v dt isd] assms
    by (simp add: outcome_state_simps)
  note iff = last_value_absent_iff[OF fresh, of ops]
  have absent: "revert (run s0 ops) = Raised AttributeError (run s0 ops)
               \<and> get_last_value (run s0 ops) = Inl AttributeError" if "\<not> saved s0 ops"
    using that iff by (simp add: revert_def get_last_value_def)
  have present: "completes (revert (run s0 ops))
               \<and> get_last_value (run s0 ops) \<noteq> Inl AttributeError" if "saved s0 ops"
    using that iff
    by (auto simp: revert_def get_last_value_def completes_def split: option.splits)
  show ?thesis
    using iff absent present succeeded_saved[of s0 ops]
      set_value_last_value[of "run s0 ops" new]
    by blast
qed

lemmas init_defs = Stochastic_init_def initial_value_def gen_lazy_function_def
  draw_initial_def check_missing_def coerce_initial_def store_result_def alloc_def
  and_then_def is_None_def plain_externals_def float_dtype_def float_store_def Let_def

lemma float_stochastic_constructed:
  "Stochastic_init plain_externals float_store 3 0 (Some float_dtype) False
     = Done float_stochastic"
  by (simp add: float_stochastic_def init_defs outcome_state_simps)

lemma float_data_constructed:
  "Stochastic_init plain_externals float_store 3 0 (Some float_dtype) True
     = Done float_data"
  by (simp add: float_data_def init_defs outcome_state_simps)

lemma float_stochastic_fields:
  "\<not> isdata float_stochastic" "s_value float_stochastic = 3"
  "s_dtype float_stochastic = Some float_dtype"
  "heap float_stochastic 1 = Scalar (Some (Inr ''abc''))"
  "heap float_stochastic 2 = Scalar (Some (Inl 2))"
  by (simp_all add: float_stochastic_def init_defs outcome_state_simps)

lemma float_data_fields:
  "isdata float_data" "missing float_data = None"
  by (simp_all add: float_data_def init_defs outcome_state_simps)

lemma gappy_data_constructed:
  "Stochastic_init drawing_externals gappy_store 3 0 None True = Done gappy_data"
  by (simp add: gappy_data_def drawing_externals_def gappy_store_def init_defs
        find_missing_def assign_indices_def outcome_state_simps)

lemma gappy_data_fields:
  "isdata gappy_data" "missing gappy_data = Some [2]" "s_dtype gappy_data = None"
  "heap gappy_data (s_value gappy_data) = NDArray False [Some (Inl 1), Some (Inl 2), Some (Inl 9)]"
  "heap gappy_data 1 = Scalar (Some (Inl 5))"
  "heap gappy_data 2 = NDArray True [Some (Inl 10), Some (Inl 20), Some (Inl 30)]"
  by (simp_all add: gappy_data_def drawing_externals_def gappy_store_def init_defs
        find_missing_def assign_indices_def outcome_state_simps)

lemma float_data_history: "\<not> saved float_data [Write 2, Revert]"
  by (simp add: reaches_save_def mergeable_def float_data_fields apply_op_def
        set_value_fixed outcome_state_simps)

lemma gappy_data_history: "\<not> saved gappy_data [Write 1]" "saved gappy_data [Write 2]"
  using gappy_data_fields by (simp_all add: reaches_save_def mergeable_def)

lemma float_stochastic_history: "saved float_stochastic [Write 2]"
  by (simp add: reaches_save_def float_stochastic_fields)

theorem last_value_created_by_save_witness:
  "Stochastic_init plain_externals float_store 3 0 (Some float_dtype) True = Done float_data
   \<and> \<not> saved float_data [Write 2, Revert]
   \<and> last_value (run float_data [Write 2, Revert]) = None
   \<and> revert (run float_data [Write 2, Revert])
        = Raised AttributeError (run float_data [Write 2, Revert])
   \<and> get_last_value (run float_data [Write 2, Revert]) = Inl AttributeError
   \<and> Stochastic_init drawing_externals gappy_store 3 0 None True = Done gappy_data
   \<and> \<not> saved gappy_data [Write 1]
   \<and> last_value (run gappy_data [Write 1]) = None
   \<and> revert (run gappy_data [Write 1]) = Raised AttributeError (run gappy_data [Write 1])
   \<and> saved gappy_data [Write 2]
   \<and> last_value (run gappy_data [Write 2]) \<noteq> None
   \<and> Stochastic_init plain_externals float_store 3 0 (Some float_dtype) False
        = Done float_stochastic
   \<and> saved float_stochastic [Write 2]
   \<and> last_value (run float_stochastic [Write 2]) \<noteq> None
   \<and> completes (revert (run float_stochastic [Write 2]))"
  using last_value_created_by_save[OF float_data_constructed, of "[Write 2, Revert]"]
    last_value_created_by_save[OF gappy_data_constructed, of "[Write 1]"]
    last_value_created_by_save[OF gappy_data_constructed, of "[Write 2]"]
    last_value_created_by_save[OF float_stochastic_constructed, of "[Write 2]"]
    float_data_constructed gappy_data_constructed float_stochastic_constructed
    float_data_history gappy_data_history float_stochastic_history
  by blast

text \<open>
  The claim as stated ties the attribute to a write that succeeded. The stochastic below
  is constructed with the \<^verbatim>\<open>dtype\<close> \<^verbatim>\<open>float\<close> and then offered the string \<^verbatim>\<open>abc\<close>: the write
  raises \<^verbatim>\<open>ValueError\<close> in the coercion, so no write has succeeded, yet \<^verbatim>\<open>last_value\<close>
  exists afterwards, holding the object stored at construction, and \<^verbatim>\<open>revert\<close> completes.
\<close>

theorem failed_write_creates_last_value:
  "Stochastic_init plain_externals float_store 3 0 (Some float_dtype) False
     = Done float_stochastic
   \<and> \<not> succeeded float_stochastic [Write 1]
   \<and> (case set_value float_stochastic 1 of Done s' \<Rightarrow> False | Raised e s' \<Rightarrow> e = ValueError)
   \<and> last_value (run float_stochastic [Write 1]) = Some 3
   \<and> get_last_value (run float_stochastic [Write 1]) = Inr 3
   \<and> completes (revert (run float_stochastic [Write 1]))"
proof -
  have w: "set_value float_stochastic 1 =
             Raised ValueError (float_stochastic\<lparr>last_value := Some 3\<rparr>)"
    using float_stochastic_fields
    by (simp add: set_value_def save_and_assign_def float_dtype_def Let_def)
  have r: "run float_stochastic [Write 1] = float_stochastic\<lparr>last_value := Some 3\<rparr>"
    using w by (simp add: run_def apply_op_def outcome_state_simps)
  show ?thesis
    unfolding r using w
    by (simp add: float_stochastic_constructed completes_def get_last_value_def revert_def
          apply_op_def outcome_state_simps)
qed

end
